theory Spec2Isabelle
  imports Complex_Main "HOL-Library.Word"
begin

unbundle bit_operations_syntax

section \<open>Python values\<close>

text \<open>
  The client handles documents decoded by \<^verbatim>\<open>json.loads\<close> and builds documents for
  \<^verbatim>\<open>json.dumps\<close>. A document is a value of \<open>json\<close>. An object keeps its members in
  the order of the text; as in \<^verbatim>\<open>json.loads\<close>, the last member with a given name is
  the one a lookup finds. Every \<^verbatim>\<open>dict\<close> is modelled this way: as the list of the
  assignments made to it, oldest first, read through \<open>dict_of\<close>. No operation below
  deletes a key, so a \<^verbatim>\<open>dict\<close> is empty exactly when its list is.

  Python's unbounded \<^verbatim>\<open>int\<close> is \<open>int\<close>. A finite
  \<^verbatim>\<open>float\<close> is carried as the rational number it denotes (\<open>JReal\<close>); NaN and the
  infinities are not represented. Strings are lists of 8-bit characters, so the model
  covers Python strings whose code points are below 256.
\<close>

datatype json =
    JNull
  | JBool bool
  | JInt int
  | JReal rat
  | JStr string
  | JList "json list"
  | JObj "(string \<times> json) list"

datatype error =
    TypeError
  | ValueError
  | AttributeError
  | KeyError
  | ZeroDivisionError
  | Exception string
  | NotModelled

type_synonym ('k, 'v) dict = "('k \<times> 'v) list"

definition dict_of :: "('k, 'v) dict \<Rightarrow> ('k \<rightharpoonup> 'v)" where
  "dict_of kvs = map_of (rev kvs)"

text \<open>\<^verbatim>\<open>bool(x)\<close>, the truth value Python gives \<open>x\<close> in \<^verbatim>\<open>if x\<close> and \<^verbatim>\<open>not x\<close>.\<close>

fun truthy :: "json \<Rightarrow> bool" where
  "truthy JNull = False"
| "truthy (JBool b) = b"
| "truthy (JInt i) = (i \<noteq> 0)"
| "truthy (JReal r) = (r \<noteq> 0)"
| "truthy (JStr s) = (s \<noteq> [])"
| "truthy (JList xs) = (xs \<noteq> [])"
| "truthy (JObj kvs) = (kvs \<noteq> [])"

text \<open>\<^verbatim>\<open>d.get(key, default)\<close> on a \<^verbatim>\<open>dict\<close> held in the client.\<close>

definition dict_get :: "(string, json) dict \<Rightarrow> string \<Rightarrow> json \<Rightarrow> json" where
  "dict_get d key dflt = (case dict_of d key of None \<Rightarrow> dflt | Some v \<Rightarrow> v)"

text \<open>
  \<^verbatim>\<open>x.get(key, default)\<close> on a decoded value: only a \<^verbatim>\<open>dict\<close> has the method, every
  other value raises \<^verbatim>\<open>AttributeError\<close>.
\<close>

fun py_get :: "json \<Rightarrow> string \<Rightarrow> json \<Rightarrow> error + json" where
  "py_get (JObj kvs) key dflt = Inr (dict_get kvs key dflt)"
| "py_get _ key dflt = Inl AttributeError"

text \<open>\<^verbatim>\<open>str(n)\<close> for an \<^verbatim>\<open>int\<close>, as an f-string formats it.\<close>

definition digit_char :: "nat \<Rightarrow> char" where
  "digit_char d = char_of (48 + d)"

fun str_nat :: "nat \<Rightarrow> string" where
  "str_nat n = (if n < 10 then [digit_char n] else str_nat (n div 10) @ [digit_char (n mod 10)])"

declare str_nat.simps [simp del]

definition str_int :: "int \<Rightarrow> string" where
  "str_int i = (if i < 0 then CHR ''-'' # str_nat (nat (- i)) else str_nat (nat i))"

section \<open>The client and its transport\<close>

text \<open>
  \<open>client\<close> has the fields of \<^verbatim>\<open>PrinterMQTTClient\<close> that the operations below use.
  The MQTT library is seen through three fields: \<open>is_connected\<close> is what
  \<^verbatim>\<open>self._client.is_connected()\<close> answers, \<open>published\<close> lists the messages handed to
  \<^verbatim>\<open>self._client.publish\<close> (topic and document, oldest first), and \<open>confirms n\<close> is what
  \<^verbatim>\<open>is_published()\<close> answers for the message number \<open>n\<close> after \<^verbatim>\<open>wait_for_publish()\<close>.
  \<open>logged\<close> lists the records written through \<^verbatim>\<open>logging\<close>.

  A Python exception does not undo the assignments made before it, so every operation
  returns the client it leaves behind together with its result or its exception.
\<close>

datatype logrec =
    LogError string
  | LogInfo_Published json
  | LogDebug_Data "(string, json) dict"

text \<open>
  Modelled from the spec: the classes \<^verbatim>\<open>AMS\<close> and \<^verbatim>\<open>AMSHub\<close> of \<^verbatim>\<open>bambulabs_api/ams.py\<close>,
  which is not among the source files. A storage unit has a humidity, a temperature and a
  mapping from slot index to material slot; the hub is a mapping from unit id to unit.
  The type \<open>'t\<close> is that of \<^verbatim>\<open>FilamentTray\<close> (\<^verbatim>\<open>bambulabs_api/filament_info.py\<close>, also
  absent).
\<close>

record 't AMS =
  humidity :: int
  temperature :: rat
  filament_trays :: "(int, 't) dict"

type_synonym 't AMSHub = "(int, 't AMS) dict"

definition new_AMS :: "int \<Rightarrow> rat \<Rightarrow> 't AMS" where
  "new_AMS h t = \<lparr>humidity = h, temperature = t, filament_trays = []\<rparr>"

definition set_filament_tray :: "'t AMS \<Rightarrow> int \<Rightarrow> 't \<Rightarrow> 't AMS" where
  "set_filament_tray ams tray_index filament_tray =
     ams\<lparr>filament_trays := filament_trays ams @ [(tray_index, filament_tray)]\<rparr>"

record 't client =
  printer_serial :: string
  pushall_timeout :: int
  last_update :: int
  data :: "(string, json) dict"
  ams_hub :: "'t AMSHub"
  strict :: bool
  is_connected :: bool
  confirms :: "nat \<Rightarrow> bool"
  published :: "(string \<times> json) list"
  logged :: "logrec list"

type_synonym ('a, 't) result = "(error + 'a) \<times> 't client"

definition command_topic :: "'t client \<Rightarrow> string" where
  "command_topic s = ''device/'' @ printer_serial s @ ''/request''"

text \<open>\<^verbatim>\<open>__init__\<close> with its default arguments; the transport starts disconnected.\<close>

definition init :: "string \<Rightarrow> (nat \<Rightarrow> bool) \<Rightarrow> 't client" where
  "init serial acks =
     \<lparr>printer_serial = serial, pushall_timeout = 60, last_update = 0, data = [],
      ams_hub = [], strict = False, is_connected = False, confirms = acks,
      published = [], logged = []\<rparr>"

definition ready :: "'t client \<Rightarrow> bool" where
  "ready s = (data s \<noteq> [])"

subsection \<open>Publishing\<close>

text \<open>\<^verbatim>\<open>__publish_command\<close>\<close>

definition publish_command :: "json \<Rightarrow> 't client \<Rightarrow> bool \<times> 't client" where
  "publish_command payload s =
     (if \<not> is_connected s
      then (False, s\<lparr>logged := logged s @ [LogError ''Not connected to the MQTT server'']\<rparr>)
      else (confirms s (length (published s)),
            s\<lparr>published := published s @ [(command_topic s, payload)],
              logged := logged s @ [LogInfo_Published payload]\<rparr>))"

definition pushall_doc :: json where
  "pushall_doc = JObj [(''pushing'', JObj [(''command'', JStr ''pushall'')])]"

definition pushall :: "'t client \<Rightarrow> bool \<times> 't client" where
  "pushall s = publish_command pushall_doc s"

subsection \<open>Calibration\<close>

text \<open>
  \<^verbatim>\<open>calibration\<close>: the three flags set bits of a Python \<^verbatim>\<open>int\<close> that starts at 0.
\<close>

definition calibration_bitmask :: "bool \<Rightarrow> bool \<Rightarrow> bool \<Rightarrow> int" where
  "calibration_bitmask bed_levelling motor_noise_cancellation vibration_compensation =
     (let bitmask = 0;
          bitmask = (if bed_levelling then bitmask OR push_bit 1 1 else bitmask);
          bitmask = (if vibration_compensation then bitmask OR push_bit 2 1 else bitmask);
          bitmask = (if motor_noise_cancellation then bitmask OR push_bit 3 1 else bitmask)
      in bitmask)"

definition calibration :: "bool \<Rightarrow> bool \<Rightarrow> bool \<Rightarrow> 't client \<Rightarrow> bool \<times> 't client" where
  "calibration bed_levelling motor_noise_cancellation vibration_compensation s =
     publish_command
       (JObj [(''print'',
          JObj [(''command'', JStr ''calibration''),
                (''option'', JInt (calibration_bitmask bed_levelling motor_noise_cancellation
                                     vibration_compensation))])]) s"

section \<open>StateSynchronizer\<close>

subsection \<open>Merging a report\<close>

text \<open>\<^verbatim>\<open>"print" in s\<close> for a string \<open>s\<close>: a substring test.\<close>

fun is_substr :: "string \<Rightarrow> string \<Rightarrow> bool" where
  "is_substr p [] = (p = [])"
| "is_substr p (c # cs) = (take (length p) (c # cs) = p \<or> is_substr p cs)"

text \<open>
  \<^verbatim>\<open>"print" in doc\<close>: key membership for a \<^verbatim>\<open>dict\<close>, element membership for a
  \<^verbatim>\<open>list\<close>, the substring test for a \<^verbatim>\<open>str\<close>; \<^verbatim>\<open>None\<close>, a number or a boolean is
  not a container and raises \<^verbatim>\<open>TypeError\<close>.
\<close>

fun contains_print :: "json \<Rightarrow> error + bool" where
  "contains_print (JObj kvs) = Inr (dict_of kvs ''print'' \<noteq> None)"
| "contains_print (JList xs) = Inr (JStr ''print'' \<in> set xs)"
| "contains_print (JStr s) = Inr (is_substr ''print'' s)"
| "contains_print _ = Inl TypeError"

text \<open>\<^verbatim>\<open>doc["print"]\<close>: a list or a string cannot be indexed by a string.\<close>

fun index_print :: "json \<Rightarrow> error + json" where
  "index_print (JObj kvs) =
     (case dict_of kvs ''print'' of None \<Rightarrow> Inl KeyError | Some v \<Rightarrow> Inr v)"
| "index_print _ = Inl TypeError"

text \<open>
  \<^verbatim>\<open>self._data |= v\<close>. A \<^verbatim>\<open>dict\<close> on the right overwrites key by key. \<^verbatim>\<open>None\<close>, a
  number or a boolean is not iterable (\<^verbatim>\<open>TypeError\<close>). Any other value is read as a
  sequence of key/value pairs: an empty string or list changes nothing and a character
  of a string is too short to be a pair (\<^verbatim>\<open>ValueError\<close>). A non-empty list may add keys
  of any hashable type, which \<open>data\<close> cannot hold; that single case is left open as
  \<open>NotModelled\<close>, and nothing is proved about it.
\<close>

fun dict_ior :: "(string, json) dict \<Rightarrow> json \<Rightarrow> error + (string, json) dict" where
  "dict_ior d (JObj kvs) = Inr (d @ kvs)"
| "dict_ior d (JStr s) = (if s = [] then Inr d else Inl ValueError)"
| "dict_ior d (JList xs) = (if xs = [] then Inr d else Inl NotModelled)"
| "dict_ior d _ = Inl TypeError"

definition manual_update :: "json \<Rightarrow> 't client \<Rightarrow> (unit, 't) result" where
  "manual_update doc s =
     (case contains_print doc of
        Inl e \<Rightarrow> (Inl e, s)
      | Inr False \<Rightarrow> (Inr (), s)
      | Inr True \<Rightarrow>
          (case index_print doc of
             Inl e \<Rightarrow> (Inl e, s)
           | Inr v \<Rightarrow>
               (case dict_ior (data s) v of
                  Inl e \<Rightarrow> (Inl e, s)
                | Inr d \<Rightarrow> (Inr (), s\<lparr>data := d, logged := logged s @ [LogDebug_Data d]\<rparr>))))"

text \<open>
  \<^verbatim>\<open>_on_message\<close>. \<open>loads\<close> stands for \<^verbatim>\<open>json.loads\<close>, which raises on a payload that
  is not JSON text.
\<close>

definition on_message :: "('p \<Rightarrow> error + json) \<Rightarrow> 'p \<Rightarrow> 't client \<Rightarrow> (unit, 't) result" where
  "on_message loads payload s =
     (case loads payload of
        Inl e \<Rightarrow> (Inl e, s)
      | Inr doc \<Rightarrow> manual_update doc s)"

text \<open>
  Whether a decoded payload carries a \<^verbatim>\<open>print\<close> section: it is an object with a
  member of that name.
\<close>

fun has_print_section :: "json \<Rightarrow> bool" where
  "has_print_section (JObj members) = (dict_of members ''print'' \<noteq> None)"
| "has_print_section _ = False"

subsection \<open>Reading a field\<close>

text \<open>
  \<^verbatim>\<open>_update\<close>; \<open>now\<close> is \<^verbatim>\<open>int(datetime.datetime.now().timestamp())\<close>, read when the
  call is made.
\<close>

definition update :: "int \<Rightarrow> 't client \<Rightarrow> bool \<times> 't client" where
  "update now s =
     (let current_time = now
      in if last_update s + pushall_timeout s > current_time then (False, s)
         else pushall (s\<lparr>last_update := current_time\<rparr>))"

text \<open>The decorator \<^verbatim>\<open>__ready\<close>.\<close>

definition ready_wrapper :: "('t client \<Rightarrow> ('a, 't) result) \<Rightarrow> 't client \<Rightarrow> ('a, 't) result" where
  "ready_wrapper func s =
     (if \<not> ready s
      then (let s1 = s\<lparr>logged := logged s @ [LogError ''Printer Values Not Available Yet'']\<rparr>
            in if strict s1 then (Inl (Exception ''Printer not found''), s1) else func s1)
      else func s)"

text \<open>\<^verbatim>\<open>__get\<close>, wrapped by \<^verbatim>\<open>__ready\<close>.\<close>

definition get :: "string \<Rightarrow> json \<Rightarrow> int \<Rightarrow> 't client \<Rightarrow> (json, 't) result" where
  "get key dflt now =
     ready_wrapper (\<lambda>s. case update now s of (_, s') \<Rightarrow> (Inr (dict_get (data s') key dflt), s'))"

section \<open>GcodeValidator\<close>

text \<open>
  The character classes of Python for code points below 256: \<^verbatim>\<open>str.isspace\<close> (used by
  \<^verbatim>\<open>strip()\<close> and \<^verbatim>\<open>split()\<close>), the class \<^verbatim>\<open>\d\<close> and the class \<^verbatim>\<open>[A-Z]\<close>.
\<close>

definition is_space :: "char \<Rightarrow> bool" where
  "is_space c = (of_char c \<in> {9, 10, 11, 12, 13, 28, 29, 30, 31, 32, 133, 160 :: nat})"

definition is_digit :: "char \<Rightarrow> bool" where
  "is_digit c = (48 \<le> (of_char c :: nat) \<and> (of_char c :: nat) \<le> 57)"

definition is_upper :: "char \<Rightarrow> bool" where
  "is_upper c = (65 \<le> (of_char c :: nat) \<and> (of_char c :: nat) \<le> 90)"

text \<open>\<^verbatim>\<open>line.split(";")[0]\<close>: the text before the first semicolon.\<close>

definition before_semicolon :: "string \<Rightarrow> string" where
  "before_semicolon line = takeWhile (\<lambda>c. c \<noteq> CHR '';'') line"

text \<open>\<^verbatim>\<open>s.strip()\<close>\<close>

definition py_strip :: "string \<Rightarrow> string" where
  "py_strip s = rev (dropWhile is_space (rev (dropWhile is_space s)))"

text \<open>
  \<^verbatim>\<open>s.split()\<close>: the maximal runs of characters that are not whitespace, in order.
  \<open>split_acc cur s\<close> scans \<open>s\<close> with the run read so far in \<open>cur\<close>.
\<close>

fun split_acc :: "string \<Rightarrow> string \<Rightarrow> string list" where
  "split_acc cur [] = (if cur = [] then [] else [cur])"
| "split_acc cur (c # cs) =
     (if is_space c
      then (if cur = [] then split_acc [] cs else cur # split_acc [] cs)
      else split_acc (cur @ [c]) cs)"

definition py_split :: "string \<Rightarrow> string list" where
  "py_split s = split_acc [] s"

text \<open>
  \<^verbatim>\<open>match(r"^[GM]\d+", line)\<close>: a match at the start of the line; what follows the
  digits is not looked at.
\<close>

definition match_command :: "string \<Rightarrow> bool" where
  "match_command line =
     (case line of
        [] \<Rightarrow> False
      | c # rest \<Rightarrow> (c = CHR ''G'' \<or> c = CHR ''M'') \<and> takeWhile is_digit rest \<noteq> [])"

text \<open>
  \<^verbatim>\<open>match(r"^[A-Z]-?\d+(\.\d+)?$", token)\<close>. The pattern has one way to match: the
  sign is taken when it is there, \<^verbatim>\<open>\d+\<close> takes the whole run of digits, and the rest
  is nothing or a dot and digits. \<^verbatim>\<open>$\<close> matches at the end and also before a line feed
  that ends the string.
\<close>

definition at_end :: "string \<Rightarrow> bool" where
  "at_end s = (s = [] \<or> s = [CHR 0x0A])"

definition match_param :: "string \<Rightarrow> bool" where
  "match_param token =
     (case token of
        [] \<Rightarrow> False
      | c # r0 \<Rightarrow>
          is_upper c \<and>
          (let r1 = (case r0 of [] \<Rightarrow> r0 | x # xs \<Rightarrow> if x = CHR ''-'' then xs else r0);
               r2 = dropWhile is_digit r1
           in takeWhile is_digit r1 \<noteq> [] \<and>
              (at_end r2 \<or>
               (case r2 of
                  [] \<Rightarrow> False
                | x # xs \<Rightarrow> x = CHR ''.'' \<and> takeWhile is_digit xs \<noteq> [] \<and>
                            at_end (dropWhile is_digit xs)))))"

definition is_valid_gcode :: "string \<Rightarrow> bool" where
  "is_valid_gcode line0 =
     (let line = py_strip (before_semicolon line0)
      in if line = [] \<or> \<not> match_command line then False
         else (let tokens = py_split line
               in list_all match_param (tl tokens)))"

subsection \<open>The grammar in the words of the specification\<close>

text \<open>
  \<open>spec_digits\<close> is a non-empty run of digits, \<open>spec_number\<close> an optionally fractional
  number, \<open>spec_param\<close> a single uppercase letter followed by an optionally negative
  number, and \<open>spec_command\<close> a line that starts with G or M followed by digits.
\<close>

definition spec_digits :: "string \<Rightarrow> bool" where
  "spec_digits ds = (ds \<noteq> [] \<and> list_all is_digit ds)"

definition spec_number :: "string \<Rightarrow> bool" where
  "spec_number n =
     (spec_digits n \<or> (\<exists>ds fs. spec_digits ds \<and> spec_digits fs \<and> n = ds @ ''.'' @ fs))"

definition spec_param :: "string \<Rightarrow> bool" where
  "spec_param t =
     (\<exists>c n. is_upper c \<and> spec_number n \<and> (t = c # n \<or> t = c # CHR ''-'' # n))"

definition spec_command :: "string \<Rightarrow> bool" where
  "spec_command l =
     (\<exists>c ds rest. (c = CHR ''G'' \<or> c = CHR ''M'') \<and> spec_digits ds \<and> l = c # ds @ rest)"

definition spec_valid_gcode :: "string \<Rightarrow> bool" where
  "spec_valid_gcode line0 =
     (let l = py_strip (before_semicolon line0)
      in l \<noteq> [] \<and> spec_command l \<and> list_all spec_param (tl (py_split l)))"

section \<open>CommandDispatcher\<close>

text \<open>\<^verbatim>\<open>__send_gcode_line\<close>\<close>

definition send_gcode_line :: "string \<Rightarrow> 't client \<Rightarrow> bool \<times> 't client" where
  "send_gcode_line gcode_command s =
     publish_command
       (JObj [(''print'', JObj [(''command'', JStr ''gcode_line''),
                                (''param'', JStr gcode_command)])]) s"

subsection \<open>Fan speed\<close>

text \<open>
  \<^verbatim>\<open>round(x)\<close> of a \<^verbatim>\<open>float\<close>: the nearest integer, a tie going to the even one.
\<close>

definition py_round :: "rat \<Rightarrow> int" where
  "py_round x =
     (let f = \<lfloor>x\<rfloor>; d = x - of_int f
      in if d < 1 / 2 then f else if 1 / 2 < d then f + 1 else if even f then f else f + 1)"

text \<open>
  \<^verbatim>\<open>_set_fan_speed\<close>. \<^verbatim>\<open>isinstance(speed, int)\<close> holds for an \<^verbatim>\<open>int\<close> and for a
  \<^verbatim>\<open>bool\<close>, which an f-string prints as \<^verbatim>\<open>True\<close> or \<^verbatim>\<open>False\<close>. The quotient
  \<^verbatim>\<open>255 / speed\<close> raises \<^verbatim>\<open>ZeroDivisionError\<close> for \<^verbatim>\<open>0.0\<close>; otherwise it is taken
  exactly, which is what the \<^verbatim>\<open>float\<close> division gives whenever the exact quotient is
  itself a \<^verbatim>\<open>float\<close>, as for 0.5 and 1.0.
\<close>

definition fan_line :: "int \<Rightarrow> string \<Rightarrow> string" where
  "fan_line fan_num speed_text = ''M106 P'' @ str_int fan_num @ '' S'' @ speed_text @ [CHR 0x0A]"

definition set_fan_speed :: "json \<Rightarrow> int \<Rightarrow> 't client \<Rightarrow> (bool, 't) result" where
  "set_fan_speed speed fan_num s =
     (case speed of
        JInt i \<Rightarrow>
          if i > 255 \<or> i < 0 then (Inl ValueError, s)
          else (case send_gcode_line (fan_line fan_num (str_int i)) s of (b, s') \<Rightarrow> (Inr b, s'))
      | JBool b \<Rightarrow>
          (case send_gcode_line (fan_line fan_num (if b then ''True'' else ''False'')) s of
             (b, s') \<Rightarrow> (Inr b, s'))
      | JReal x \<Rightarrow>
          if x < 0 \<or> x > 1 then (Inl ValueError, s)
          else if x = 0 then (Inl ZeroDivisionError, s)
          else (let speed' = py_round (255 / x)
                in case send_gcode_line (fan_line fan_num (str_int speed')) s of
                     (b, s') \<Rightarrow> (Inr b, s'))
      | _ \<Rightarrow> (Inl ValueError, s))"

definition set_part_fan_speed :: "json \<Rightarrow> 't client \<Rightarrow> (bool, 't) result" where
  "set_part_fan_speed speed s = set_fan_speed speed 1 s"

definition set_aux_fan_speed :: "json \<Rightarrow> 't client \<Rightarrow> (bool, 't) result" where
  "set_aux_fan_speed speed s = set_fan_speed speed 2 s"

definition set_chamber_fan_speed :: "json \<Rightarrow> 't client \<Rightarrow> (bool, 't) result" where
  "set_chamber_fan_speed speed s = set_fan_speed speed 3 s"

subsection \<open>Starting a print\<close>

text \<open>
  \<^verbatim>\<open>list(x)\<close>: the elements of a list, the characters of a string, the keys of a
  \<^verbatim>\<open>dict\<close>; anything else is not iterable.
\<close>

fun py_list :: "json \<Rightarrow> error + json list" where
  "py_list (JList xs) = Inr xs"
| "py_list (JStr s) = Inr (map (\<lambda>c. JStr [c]) s)"
| "py_list (JObj kvs) = Inr (map JStr (rev (remdups (rev (map fst kvs)))))"
| "py_list _ = Inl TypeError"

text \<open>
  \<^verbatim>\<open>start_print_3mf\<close>. Python does not check the annotations of the parameters, so the
  flags, the mapping and the skip list are taken as the values they are given. The
  arguments are in the order of the signature.
\<close>

definition start_print_3mf ::
  "string \<Rightarrow> int \<Rightarrow> json \<Rightarrow> json \<Rightarrow> json \<Rightarrow> json \<Rightarrow> json \<Rightarrow> json \<Rightarrow> json \<Rightarrow> 't client
   \<Rightarrow> (bool, 't) result" where
  "start_print_3mf filename plate_number bed_leveling flow_calibration vibration_calibration
       bed_type use_ams ams_mapping skip_objects s =
     (let skip_objects' =
            (if skip_objects \<noteq> JNull \<and> \<not> truthy skip_objects then JNull else skip_objects)
      in case py_list ams_mapping of
           Inl e \<Rightarrow> (Inl e, s)
         | Inr mapping \<Rightarrow>
             (case publish_command
                (JObj [(''print'',
                   JObj [(''command'', JStr ''project_file''),
                         (''param'', JStr (''Metadata/plate_'' @ str_int plate_number @ ''.gcode'')),
                         (''file'', JStr filename),
                         (''bed_leveling'', bed_leveling),
                         (''bed_type'', bed_type),
                         (''flow_cali'', flow_calibration),
                         (''vibration_cali'', vibration_calibration),
                         (''url'', JStr (''ftp:///'' @ filename)),
                         (''layer_inspect'', JBool False),
                         (''sequence_id'', JStr ''10000000''),
                         (''use_ams'', JBool (truthy use_ams)),
                         (''ams_mapping'', JList mapping),
                         (''skip_objects'', skip_objects')])]) s
              of (b, s') \<Rightarrow> (Inr b, s')))"

text \<open>
  \<^verbatim>\<open>Printer.start_print_min\<close> (\<^verbatim>\<open>client.py\<close>): five positional arguments; the other
  four parameters of \<^verbatim>\<open>start_print_3mf\<close> take their defaults \<^verbatim>\<open>"textured_plate"\<close>,
  \<^verbatim>\<open>True\<close>, \<^verbatim>\<open>[0]\<close> and \<^verbatim>\<open>None\<close>.
\<close>

definition start_print_min ::
  "string \<Rightarrow> int \<Rightarrow> bool \<Rightarrow> int list \<Rightarrow> int list option \<Rightarrow> 't client \<Rightarrow> (bool, 't) result" where
  "start_print_min filename plate_number use_ams ams_mapping skip_objects s =
     start_print_3mf filename plate_number
       (JBool use_ams)
       (JList (map JInt ams_mapping))
       (case skip_objects of None \<Rightarrow> JNull | Some xs \<Rightarrow> JList (map JInt xs))
       (JStr ''textured_plate'') (JBool True) (JList [JInt 0]) JNull s"

subsection \<open>Pause and resume\<close>

text \<open>
  The enumeration \<^verbatim>\<open>GcodeState\<close> is declared in \<^verbatim>\<open>bambulabs_api/states_info.py\<close>, which
  is not among the source files. Its type is \<open>'g\<close>; the call \<^verbatim>\<open>GcodeState(v)\<close> is the
  parameter \<open>decode\<close>, and its members \<^verbatim>\<open>PAUSE\<close> and \<^verbatim>\<open>RUNNING\<close> are parameters too.
\<close>

definition get_printer_state ::
  "(json \<Rightarrow> error + 'g) \<Rightarrow> int \<Rightarrow> 't client \<Rightarrow> ('g, 't) result" where
  "get_printer_state decode now s =
     (case get ''gcode_state'' (JInt (- 1)) now s of
        (Inl e, s') \<Rightarrow> (Inl e, s')
      | (Inr v, s') \<Rightarrow> (decode v, s'))"

definition pause_doc :: json where
  "pause_doc = JObj [(''print'', JObj [(''command'', JStr ''pause'')])]"

definition resume_doc :: json where
  "resume_doc = JObj [(''print'', JObj [(''command'', JStr ''resume'')])]"

definition pause_print ::
  "(json \<Rightarrow> error + 'g) \<Rightarrow> 'g \<Rightarrow> int \<Rightarrow> 't client \<Rightarrow> (bool, 't) result" where
  "pause_print decode PAUSE now s =
     (case get_printer_state decode now s of
        (Inl e, s') \<Rightarrow> (Inl e, s')
      | (Inr g, s') \<Rightarrow>
          if g = PAUSE then (Inr True, s')
          else (case publish_command pause_doc s' of (b, s'') \<Rightarrow> (Inr b, s'')))"

definition resume_print ::
  "(json \<Rightarrow> error + 'g) \<Rightarrow> 'g \<Rightarrow> int \<Rightarrow> 't client \<Rightarrow> (bool, 't) result" where
  "resume_print decode RUNNING now s =
     (case get_printer_state decode now s of
        (Inl e, s') \<Rightarrow> (Inl e, s')
      | (Inr g, s') \<Rightarrow>
          if g = RUNNING then (Inr True, s')
          else (case publish_command resume_doc s' of (b, s'') \<Rightarrow> (Inr b, s'')))"

section \<open>StorageHubModel\<close>

text \<open>
  \<^verbatim>\<open>process_ams\<close>. \<^verbatim>\<open>FilamentTray.from_dict\<close> belongs to the absent
  \<^verbatim>\<open>bambulabs_api/filament_info.py\<close> and is the parameter \<open>from_dict\<close>. Python's
  conversions \<^verbatim>\<open>int(x)\<close> and \<^verbatim>\<open>float(x)\<close> are the parameters \<open>py_int\<close> and
  \<open>py_float\<close>; each may raise. The two loops run over \<^verbatim>\<open>enumerate(...)\<close>, so they
  carry the position \<open>k\<close>.
\<close>

fun parse_trays ::
  "(json \<Rightarrow> error + 't) \<Rightarrow> (json \<Rightarrow> error + int) \<Rightarrow> nat \<Rightarrow> json list \<Rightarrow> 't AMS
   \<Rightarrow> error + 't AMS" where
  "parse_trays from_dict py_int k [] ams = Inr ams"
| "parse_trays from_dict py_int k (tray # rest) ams =
     (case py_get tray ''id'' (JInt (int k)) of
        Inl e \<Rightarrow> Inl e
      | Inr idv \<Rightarrow>
          (case py_int idv of
             Inl e \<Rightarrow> Inl e
           | Inr tray_id \<Rightarrow>
               (case py_get tray ''n'' JNull of
                  Inl e \<Rightarrow> Inl e
                | Inr tray_n \<Rightarrow>
                    if truthy tray_n
                    then (case from_dict tray of
                            Inl e \<Rightarrow> Inl e
                          | Inr filament_tray \<Rightarrow>
                              parse_trays from_dict py_int (Suc k) rest
                                (set_filament_tray ams tray_id filament_tray))
                    else parse_trays from_dict py_int (Suc k) rest ams)))"

text \<open>
  The body of the outer loop up to the assignment \<^verbatim>\<open>self.ams_hub[id] = ams\<close>: the unit
  id and the unit built from one entry of the unit list.
\<close>

definition parse_unit ::
  "(json \<Rightarrow> error + 't) \<Rightarrow> (json \<Rightarrow> error + int) \<Rightarrow> (json \<Rightarrow> error + rat) \<Rightarrow> nat \<Rightarrow> json
   \<Rightarrow> error + (int \<times> 't AMS)" where
  "parse_unit from_dict py_int py_float k v =
     (case py_get v ''humidity'' (JInt 0) of
        Inl e \<Rightarrow> Inl e
      | Inr hv \<Rightarrow>
     (case py_int hv of
        Inl e \<Rightarrow> Inl e
      | Inr humidity' \<Rightarrow>
     (case py_get v ''temp'' (JReal 0) of
        Inl e \<Rightarrow> Inl e
      | Inr tv \<Rightarrow>
     (case py_float tv of
        Inl e \<Rightarrow> Inl e
      | Inr temp \<Rightarrow>
     (case py_get v ''id'' (JInt (int k)) of
        Inl e \<Rightarrow> Inl e
      | Inr idv \<Rightarrow>
     (case py_int idv of
        Inl e \<Rightarrow> Inl e
      | Inr unit_id \<Rightarrow>
     (case py_get v ''tray'' (JList []) of
        Inl e \<Rightarrow> Inl e
      | Inr trays \<Rightarrow>
          if truthy trays
          then (case py_list trays of
                  Inl e \<Rightarrow> Inl e
                | Inr ts \<Rightarrow>
                    (case parse_trays from_dict py_int 0 ts (new_AMS humidity' temp) of
                       Inl e \<Rightarrow> Inl e
                     | Inr ams \<Rightarrow> Inr (unit_id, ams)))
          else Inr (unit_id, new_AMS humidity' temp))))))))"

text \<open>
  The outer loop. The hub is assigned unit by unit, so when an entry raises, the units
  stored before it stay in the hub.
\<close>

fun parse_units ::
  "(json \<Rightarrow> error + 't) \<Rightarrow> (json \<Rightarrow> error + int) \<Rightarrow> (json \<Rightarrow> error + rat) \<Rightarrow> nat
   \<Rightarrow> json list \<Rightarrow> 't AMSHub \<Rightarrow> (error + unit) \<times> 't AMSHub" where
  "parse_units from_dict py_int py_float k [] hub = (Inr (), hub)"
| "parse_units from_dict py_int py_float k (v # rest) hub =
     (case parse_unit from_dict py_int py_float k v of
        Inl e \<Rightarrow> (Inl e, hub)
      | Inr (unit_id, ams) \<Rightarrow>
          parse_units from_dict py_int py_float (Suc k) rest (hub @ [(unit_id, ams)]))"

text \<open>
  What \<^verbatim>\<open>process_ams\<close> does with the value read under \<^verbatim>\<open>"ams"\<close>, starting from the
  fresh \<^verbatim>\<open>AMSHub()\<close>.
\<close>

definition parse_ams ::
  "(json \<Rightarrow> error + 't) \<Rightarrow> (json \<Rightarrow> error + int) \<Rightarrow> (json \<Rightarrow> error + rat) \<Rightarrow> json
   \<Rightarrow> (error + unit) \<times> 't AMSHub" where
  "parse_ams from_dict py_int py_float ams_info =
     (if \<not> truthy ams_info then (Inr (), [])
      else (case py_get ams_info ''ams_exist_bits'' (JStr ''0'') of
              Inl e \<Rightarrow> (Inl e, [])
            | Inr bits \<Rightarrow>
                if bits = JStr ''0'' then (Inr (), [])
                else (case py_get ams_info ''ams'' (JList []) of
                        Inl e \<Rightarrow> (Inl e, [])
                      | Inr ams_units \<Rightarrow>
                          (case py_list ams_units of
                             Inl e \<Rightarrow> (Inl e, [])
                           | Inr units \<Rightarrow>
                               parse_units from_dict py_int py_float 0 units []))))"

definition process_ams ::
  "(json \<Rightarrow> error + 't) \<Rightarrow> (json \<Rightarrow> error + int) \<Rightarrow> (json \<Rightarrow> error + rat) \<Rightarrow> int
   \<Rightarrow> 't client \<Rightarrow> (unit, 't) result" where
  "process_ams from_dict py_int py_float now s =
     (case get ''ams'' JNull now s of
        (Inl e, s') \<Rightarrow> (Inl e, s')
      | (Inr ams_info, s') \<Rightarrow>
          (case parse_ams from_dict py_int py_float ams_info of
             (r, hub) \<Rightarrow> (r, s'\<lparr>ams_hub := hub\<rparr>)))"

section \<open>A client to run the operations on\<close>

text \<open>
  \<open>acks_all\<close> is a transport that confirms every message. \<open>demo\<close> is a freshly
  constructed client for the printer \<^verbatim>\<open>SN1\<close> whose transport is connected.
\<close>

definition acks_all :: "nat \<Rightarrow> bool" where
  "acks_all n = True"

definition demo :: "json client" where
  "demo = (init ''SN1'' acks_all)\<lparr>is_connected := True\<rparr>"

text \<open>The number of full-refresh requests among the messages published so far.\<close>

definition refreshes :: "'t client \<Rightarrow> nat" where
  "refreshes s = length (filter (\<lambda>m. snd m = pushall_doc) (published s))"

text \<open>
  Arguments for the parameters of \<open>process_ams\<close> when it is run on a sample report whose
  numbers are JSON numbers: \<open>int_of_number\<close> is \<^verbatim>\<open>int(x)\<close> and \<open>float_of_number\<close> is
  \<^verbatim>\<open>float(x)\<close> for such an \<open>x\<close> (\<^verbatim>\<open>int\<close> truncates towards zero), and neither is used on
  anything else. \<open>tray_of_dict\<close> keeps the slot fragment itself as the parsed slot.
\<close>

definition int_of_number :: "json \<Rightarrow> error + int" where
  "int_of_number x =
     (case x of
        JInt i \<Rightarrow> Inr i
      | JReal r \<Rightarrow> Inr (if r < 0 then - \<lfloor>- r\<rfloor> else \<lfloor>r\<rfloor>)
      | _ \<Rightarrow> Inl TypeError)"

definition float_of_number :: "json \<Rightarrow> error + rat" where
  "float_of_number x =
     (case x of
        JInt i \<Rightarrow> Inr (of_int i)
      | JReal r \<Rightarrow> Inr r
      | _ \<Rightarrow> Inl TypeError)"

definition tray_of_dict :: "json \<Rightarrow> error + json" where
  "tray_of_dict tray = Inr tray"

text \<open>
  \<open>paused\<close> is \<open>demo\<close> after a report that gave the gcode state \<^verbatim>\<open>PAUSE\<close> and a
  refresh at time 1000.
\<close>

definition paused :: "json client" where
  "paused = demo\<lparr>data := [(''gcode_state'', JStr ''PAUSE'')], last_update := 1000\<rparr>"

text \<open>
  \<open>sample_ams\<close> is a storage-hub fragment with one unit and two slots, the first with
  an empty material identifier. \<open>stale\<close> is a client that holds this fragment in its
  snapshot and, in its hub, a unit 7 left by an earlier parse.
\<close>

definition sample_unit :: json where
  "sample_unit =
     JObj [(''humidity'', JInt 3), (''temp'', JReal (51 / 2)), (''id'', JInt 0),
           (''tray'', JList [JObj [(''id'', JInt 0), (''n'', JStr [])],
                             JObj [(''id'', JInt 1), (''n'', JStr ''GFA00'')]])]"

definition sample_ams :: json where
  "sample_ams = JObj [(''ams_exist_bits'', JStr ''1''), (''ams'', JList [sample_unit])]"

definition stale :: "json client" where
  "stale = demo\<lparr>data := [(''ams'', sample_ams)], ams_hub := [(7, new_AMS 1 2)]\<rparr>"

section \<open>Frame lemmas\<close>

lemma data_publish_command [simp]: "data (snd (publish_command p s)) = data s"
  by (simp add: publish_command_def)

lemma data_update [simp]: "data (snd (update now s)) = data s"
  by (simp add: update_def pushall_def Let_def)

lemma published_publish_command:
  "published (snd (publish_command p s)) =
     (if is_connected s then published s @ [(command_topic s, p)] else published s)"
  by (simp add: publish_command_def)

lemma dict_of_append: "dict_of (xs @ ys) = dict_of xs ++ dict_of ys"
  by (simp add: dict_of_def)

lemma dict_of_Some_nonempty: "dict_of kvs k = Some v \<Longrightarrow> kvs \<noteq> []"
  by (auto simp: dict_of_def)

lemma manual_update_print_object:
  assumes "dict_of doc ''print'' = Some (JObj sect)"
  shows "manual_update (JObj doc) s =
           (Inr (), s\<lparr>data := data s @ sect,
                        logged := logged s @ [LogDebug_Data (data s @ sect)]\<rparr>)"
  using assms by (simp add: manual_update_def)

lemma get_ready:
  assumes "ready s"
  shows "get key dflt now s = (Inr (dict_get (data s) key dflt), snd (update now s))"
  using assms by (simp add: get_def ready_wrapper_def case_prod_beta)

lemma update_cases:
  "update now s =
     (if last_update s + pushall_timeout s > now then (False, s)
      else publish_command pushall_doc (s\<lparr>last_update := now\<rparr>))"
  by (simp add: update_def pushall_def Let_def)

lemma refreshes_publish_pushall:
  "refreshes (snd (publish_command pushall_doc s)) =
     (if is_connected s then refreshes s + 1 else refreshes s)"
  by (simp add: publish_command_def refreshes_def)

lemma get_proceeds:
  assumes "ready s \<or> \<not> strict s"
  shows "get key dflt now s =
           (Inr (dict_get (data s) key dflt),
            snd (update now (if ready s then s
                             else s\<lparr>logged := logged s @ [LogError ''Printer Values Not Available Yet'']\<rparr>)))"
  using assms by (auto simp: get_def ready_wrapper_def case_prod_beta Let_def)

lemma get_raises:
  assumes "\<not> ready s" "strict s"
  shows "get key dflt now s =
           (Inl (Exception ''Printer not found''),
            s\<lparr>logged := logged s @ [LogError ''Printer Values Not Available Yet'']\<rparr>)"
  using assms by (simp add: get_def ready_wrapper_def Let_def)

lemma get_throttled:
  assumes "now < last_update s + pushall_timeout s"
  shows "published (snd (get key dflt now s)) = published s"
    and "last_update (snd (get key dflt now s)) = last_update s"
    and "pushall_timeout (snd (get key dflt now s)) = pushall_timeout s"
  using assms
  by (cases "ready s \<or> \<not> strict s"; auto simp: get_proceeds get_raises update_cases)+

lemma get_refreshes_le: "refreshes (snd (get key dflt now s)) \<le> refreshes s + 1"
  by (cases "ready s \<or> \<not> strict s")
     (auto simp: get_proceeds get_raises update_cases refreshes_def publish_command_def)

lemma get_timeout [simp]: "pushall_timeout (snd (get key dflt now s)) = pushall_timeout s"
  by (cases "ready s \<or> \<not> strict s")
     (auto simp: get_proceeds get_raises update_cases publish_command_def)

lemma get_after:
  "(published (snd (get key dflt now s)) = published s) \<or>
   (last_update (snd (get key dflt now s)) = now)"
  by (cases "ready s \<or> \<not> strict s")
     (auto simp: get_proceeds get_raises update_cases publish_command_def)

lemma get_transport [simp]:
  "is_connected (snd (get key dflt now s)) = is_connected s"
  "confirms (snd (get key dflt now s)) = confirms s"
  "printer_serial (snd (get key dflt now s)) = printer_serial s"
  by (cases "ready s \<or> \<not> strict s";
      auto simp: get_proceeds get_raises update_cases publish_command_def)+

lemma get_published_cases:
  "published (snd (get key dflt now s)) = published s
   \<or> published (snd (get key dflt now s)) = published s @ [(command_topic s, pushall_doc)]"
  by (cases "ready s \<or> \<not> strict s")
     (auto simp: get_proceeds get_raises update_cases publish_command_def command_topic_def)

lemma get_printer_state_snd:
  "snd (get_printer_state decode now s) = snd (get ''gcode_state'' (JInt (- 1)) now s)"
  by (simp add: get_printer_state_def split: prod.splits sum.splits)

section \<open>Last write wins\<close>

text \<open>
  C1. Let a report \<open>R1\<close> and then a report \<open>R2\<close> be merged, where \<open>R2\<close> is an object
  whose \<^verbatim>\<open>print\<close> section is an object that gives the key \<open>key\<close> the value \<open>v\<close>. Then a
  read of \<open>key\<close> returns \<open>v\<close>, whatever \<open>R1\<close> held (even if merging it raised), whatever
  the default, the time of the read and the mode of the client.
\<close>

theorem last_write_wins:
  assumes "dict_of doc2 ''print'' = Some (JObj fields2)"
      and "dict_of fields2 key = Some v"
  shows "fst (get key dflt now (snd (manual_update (JObj doc2) (snd (manual_update R1 s)))))
         = Inr v"
proof -
  define s1 where "s1 = snd (manual_update R1 s)"
  define s2 where "s2 = snd (manual_update (JObj doc2) s1)"
  have d2: "data s2 = data s1 @ fields2"
    unfolding s2_def by (simp add: manual_update_print_object [OF assms(1)])
  have "fields2 \<noteq> []"
    using assms(2) by (rule dict_of_Some_nonempty)
  then have "ready s2"
    by (simp add: ready_def d2)
  then have "fst (get key dflt now s2) = Inr (dict_get (data s2) key dflt)"
    by (simp add: get_ready)
  also have "dict_get (data s2) key dflt = v"
    using assms(2) by (simp add: dict_get_def d2 dict_of_append map_add_def)
  finally show ?thesis
    by (simp add: s2_def s1_def)
qed

theorem last_write_wins_witness:
  "fst (get ''mc_percent'' JNull 1000
     (snd (manual_update (JObj [(''print'', JObj [(''mc_percent'', JInt 42)])])
       (snd (manual_update
              (JObj [(''print'', JObj [(''mc_percent'', JInt 7), (''spd_mag'', JInt 100)])])
              demo))))) = Inr (JInt 42)"
  using last_write_wins [of "[(''print'', JObj [(''mc_percent'', JInt 42)])]"
      "[(''mc_percent'', JInt 42)]" "''mc_percent''" "JInt 42" JNull 1000
      "JObj [(''print'', JObj [(''mc_percent'', JInt 7), (''spd_mag'', JInt 100)])]" demo]
  by (simp add: dict_of_def)

section \<open>Calibration bitmask\<close>

text \<open>
  C6. For every combination of the three flags, \<^verbatim>\<open>calibration\<close> hands to the publisher
  the \<^verbatim>\<open>calibration\<close> command whose option has bit 1 set exactly for bed levelling,
  bit 2 exactly for vibration compensation and bit 3 exactly for motor noise, and no
  other bit; a connected client publishes that document. Bed levelling and vibration
  compensation without motor noise give the option 6.
\<close>

theorem calibration_option_bits:
  "calibration bed motor vib s =
     publish_command
       (JObj [(''print'', JObj [(''command'', JStr ''calibration''),
                                (''option'', JInt (calibration_bitmask bed motor vib))])]) s
   \<and> published (snd (calibration bed motor vib s)) =
       (if is_connected s
        then published s @
          [(command_topic s,
            JObj [(''print'', JObj [(''command'', JStr ''calibration''),
                                    (''option'', JInt (calibration_bitmask bed motor vib))])])]
        else published s)
   \<and> bit (calibration_bitmask bed motor vib) 1 = bed
   \<and> bit (calibration_bitmask bed motor vib) 2 = vib
   \<and> bit (calibration_bitmask bed motor vib) 3 = motor
   \<and> calibration_bitmask bed motor vib =
       (if bed then 2 else 0) + (if vib then 4 else 0) + (if motor then 8 else 0)
   \<and> calibration_bitmask True False True = 6"
  by (cases bed; cases motor; cases vib)
     (simp_all add: calibration_def calibration_bitmask_def published_publish_command)

section \<open>Fan speed\<close>

text \<open>
  C5. The part fan set to the fraction 0.5 on the connected client \<open>demo\<close>: the line sent
  is \<^verbatim>\<open>M106 P1 S510\<close>, since the code divides 255 by the fraction. Set to 0.0, the call
  raises \<^verbatim>\<open>ZeroDivisionError\<close> and publishes nothing.
\<close>

theorem fan_speed_float_divides:
  "fst (set_part_fan_speed (JReal (1 / 2)) demo) = Inr True
   \<and> published (snd (set_part_fan_speed (JReal (1 / 2)) demo)) =
       [(''device/SN1/request'',
         JObj [(''print'', JObj [(''command'', JStr ''gcode_line''),
                                 (''param'', JStr (''M106 P1 S510'' @ [CHR 0x0A]))])])]
   \<and> fst (set_part_fan_speed (JReal 0) demo) = Inl ZeroDivisionError
   \<and> published (snd (set_part_fan_speed (JReal 0) demo)) = []"
  by code_simp

text \<open>
  The integer branch and the range checks: an integer in 0..255 sends the line with that
  speed, an integer or a fraction out of range raises \<^verbatim>\<open>ValueError\<close>, and the fraction
  1.0 sends the speed 255.
\<close>

lemma py_round_255: "py_round (255 / 1) = 255"
  by (simp add: py_round_def)

lemma fan_speed_integer_and_range:
  "(0 \<le> i \<and> i \<le> 255 \<longrightarrow>
      set_fan_speed (JInt i) fan_num s =
        (case send_gcode_line (''M106 P'' @ str_int fan_num @ '' S'' @ str_int i @ [CHR 0x0A]) s of
           (b, s') \<Rightarrow> (Inr b, s')))
   \<and> (i < 0 \<or> 255 < i \<longrightarrow> set_fan_speed (JInt i) fan_num s = (Inl ValueError, s))
   \<and> (x < 0 \<or> 1 < x \<longrightarrow> set_fan_speed (JReal x) fan_num s = (Inl ValueError, s))
   \<and> set_fan_speed (JReal 1) fan_num s =
        (case send_gcode_line (''M106 P'' @ str_int fan_num @ '' S'' @ str_int 255 @ [CHR 0x0A]) s of
           (b, s') \<Rightarrow> (Inr b, s'))"
  by (auto simp: set_fan_speed_def fan_line_def py_round_def)

lemma fan_speed_examples:
  "published (snd (set_part_fan_speed (JInt 128) demo)) =
     [(''device/SN1/request'',
       JObj [(''print'', JObj [(''command'', JStr ''gcode_line''),
                               (''param'', JStr (''M106 P1 S128'' @ [CHR 0x0A]))])])]
   \<and> fst (set_part_fan_speed (JInt 256) demo) = Inl ValueError
   \<and> fst (set_part_fan_speed (JReal (3 / 2)) demo) = Inl ValueError
   \<and> published (snd (set_chamber_fan_speed (JReal 1) demo)) =
     [(''device/SN1/request'',
       JObj [(''print'', JObj [(''command'', JStr ''gcode_line''),
                               (''param'', JStr (''M106 P3 S255'' @ [CHR 0x0A]))])])]"
  by code_simp

section \<open>Starting a print through the minimal entry point\<close>

text \<open>
  C10. \<^verbatim>\<open>Printer.start_print_min\<close> passes \<^verbatim>\<open>use_ams\<close>, \<^verbatim>\<open>ams_mapping\<close> and
  \<^verbatim>\<open>skip_objects\<close> in the positions of \<^verbatim>\<open>bed_leveling\<close>, \<^verbatim>\<open>flow_calibration\<close> and
  \<^verbatim>\<open>vibration_calibration\<close>. For every call, the document handed to the publisher has
  \<^verbatim>\<open>use_ams\<close> true, \<^verbatim>\<open>ams_mapping\<close> \<^verbatim>\<open>[0]\<close> and \<^verbatim>\<open>skip_objects\<close> null, its
  \<^verbatim>\<open>bed_leveling\<close> is the caller's \<^verbatim>\<open>use_ams\<close>, its \<^verbatim>\<open>flow_cali\<close> the caller's
  \<^verbatim>\<open>ams_mapping\<close> and its \<^verbatim>\<open>vibration_cali\<close> the caller's \<^verbatim>\<open>skip_objects\<close>.
\<close>

theorem start_print_min_positional:
  "start_print_min filename plate_number use_ams ams_mapping skip_objects s =
     (case publish_command
        (JObj [(''print'',
           JObj [(''command'', JStr ''project_file''),
                 (''param'', JStr (''Metadata/plate_'' @ str_int plate_number @ ''.gcode'')),
                 (''file'', JStr filename),
                 (''bed_leveling'', JBool use_ams),
                 (''bed_type'', JStr ''textured_plate''),
                 (''flow_cali'', JList (map JInt ams_mapping)),
                 (''vibration_cali'',
                    (case skip_objects of None \<Rightarrow> JNull | Some xs \<Rightarrow> JList (map JInt xs))),
                 (''url'', JStr (''ftp:///'' @ filename)),
                 (''layer_inspect'', JBool False),
                 (''sequence_id'', JStr ''10000000''),
                 (''use_ams'', JBool True),
                 (''ams_mapping'', JList [JInt 0]),
                 (''skip_objects'', JNull)])]) s
      of (b, s') \<Rightarrow> (Inr b, s'))"
  by (simp add: start_print_min_def start_print_3mf_def)

section \<open>Refresh throttle\<close>

text \<open>
  C2. Two reads made at times that differ by less than the minimum refresh interval
  publish at most one full-refresh request between them, whatever reports arrive and
  however the connection changes in between. A read made when the interval has elapsed,
  and not rejected by strict mode, sets the refresh time to the current time and calls
  \<^verbatim>\<open>pushall\<close> once before it returns the field: on a connected client exactly one
  full-refresh request is published, and on a disconnected one the request fails fast
  in the publisher and nothing is published.
\<close>

theorem refresh_throttle:
  "(\<bar>tb - ta\<bar> < pushall_timeout s \<longrightarrow>
      refreshes (snd (get kb db tb ((snd (get ka da ta s))\<lparr>is_connected := c, data := d'\<rparr>)))
        \<le> refreshes s + 1)
   \<and> (last_update s + pushall_timeout s \<le> now \<and> (ready s \<or> \<not> strict s) \<longrightarrow>
        fst (get k d now s) = Inr (dict_get (data s) k d)
        \<and> last_update (snd (get k d now s)) = now
        \<and> published (snd (get k d now s)) =
            (if is_connected s then published s @ [(command_topic s, pushall_doc)]
             else published s)
        \<and> refreshes (snd (get k d now s)) =
            (if is_connected s then refreshes s + 1 else refreshes s))"
proof (intro conjI impI)
  assume near: "\<bar>tb - ta\<bar> < pushall_timeout s"
  define s1 where "s1 = snd (get ka da ta s)"
  define s1' where "s1' = s1\<lparr>is_connected := c, data := d'\<rparr>"
  have le1: "refreshes s1 \<le> refreshes s + 1"
    unfolding s1_def by (rule get_refreshes_le)
  have r1': "refreshes s1' = refreshes s1"
    by (simp add: s1'_def refreshes_def)
  consider (quiet) "published s1 = published s" | (sent) "last_update s1 = ta"
    using get_after [of ka da ta s] by (auto simp: s1_def)
  then have "refreshes (snd (get kb db tb s1')) \<le> refreshes s + 1"
  proof cases
    case quiet
    then have "refreshes s1' = refreshes s"
      by (simp add: s1'_def refreshes_def)
    then show ?thesis
      using get_refreshes_le [of kb db tb s1'] by simp
  next
    case sent
    then have "tb < last_update s1' + pushall_timeout s1'"
      using near by (simp add: s1'_def s1_def)
    then have "published (snd (get kb db tb s1')) = published s1'"
      by (rule get_throttled)
    then have "refreshes (snd (get kb db tb s1')) = refreshes s1'"
      by (simp add: refreshes_def)
    then show ?thesis
      using le1 r1' by simp
  qed
  then show "refreshes (snd (get kb db tb ((snd (get ka da ta s))\<lparr>is_connected := c, data := d'\<rparr>)))
        \<le> refreshes s + 1"
    by (simp add: s1'_def s1_def)
next
  assume h: "last_update s + pushall_timeout s \<le> now \<and> (ready s \<or> \<not> strict s)"
  then show "fst (get k d now s) = Inr (dict_get (data s) k d)"
    by (simp add: get_proceeds)
  from h show "last_update (snd (get k d now s)) = now"
    by (auto simp: get_proceeds update_cases publish_command_def)
  from h show "published (snd (get k d now s)) =
            (if is_connected s then published s @ [(command_topic s, pushall_doc)]
             else published s)"
    by (auto simp: get_proceeds update_cases publish_command_def command_topic_def)
  from h show "refreshes (snd (get k d now s)) =
            (if is_connected s then refreshes s + 1 else refreshes s)"
    by (auto simp: get_proceeds update_cases publish_command_def refreshes_def)
qed

theorem refresh_throttle_witness:
  "\<bar>1030 - 1000\<bar> < pushall_timeout demo
   \<and> refreshes (snd (get ''gcode_state'' (JInt (- 1)) 1030
        ((snd (get ''mc_percent'' JNull 1000 demo))\<lparr>is_connected := True, data := []\<rparr>))) \<le> refreshes demo + 1
   \<and> last_update demo + pushall_timeout demo \<le> 1000 \<and> (ready demo \<or> \<not> strict demo)
   \<and> fst (get ''mc_percent'' JNull 1000 demo) = Inr JNull
   \<and> last_update (snd (get ''mc_percent'' JNull 1000 demo)) = 1000
   \<and> published (snd (get ''mc_percent'' JNull 1000 demo)) = [(''device/SN1/request'', pushall_doc)]
   \<and> refreshes (snd (get ''mc_percent'' JNull 1000 demo)) = 1"
  using refresh_throttle [where tb = 1030 and ta = 1000 and s = demo and kb = "''gcode_state''"
      and db = "JInt (- 1)" and ka = "''mc_percent''" and da = JNull and c = True and d' = "[]"
      and now = 1000 and k = "''mc_percent''" and d = JNull]
  by (simp add: demo_def init_def ready_def dict_get_def dict_of_def command_topic_def refreshes_def)

text \<open>
  The interval is half open: with the interval of 60 seconds, a second read 59 seconds
  after a refresh is throttled and one 60 seconds after it refreshes again.
\<close>

lemma refresh_at_interval_boundary:
  "pushall_timeout demo = 60
   \<and> refreshes (snd (get ''mc_percent'' JNull 1059 (snd (get ''mc_percent'' JNull 1000 demo)))) = 1
   \<and> refreshes (snd (get ''mc_percent'' JNull 1060 (snd (get ''mc_percent'' JNull 1000 demo)))) = 2"
  by code_simp

section \<open>Reading before the first report\<close>

text \<open>
  The claim C3 fails on the fresh, connected, non-strict client \<open>demo\<close>: a read at
  time 1000 returns the default, but it moves the refresh time from 0 to 1000 and
  publishes a full-refresh request.
\<close>

theorem not_ready_read_refreshes:
  "\<not> strict demo \<and> \<not> ready demo
   \<and> fst (get ''mc_percent'' JNull 1000 demo) = Inr JNull
   \<and> last_update demo = 0
   \<and> last_update (snd (get ''mc_percent'' JNull 1000 demo)) = 1000
   \<and> published demo = []
   \<and> published (snd (get ''mc_percent'' JNull 1000 demo)) = [(''device/SN1/request'', pushall_doc)]"
  by code_simp

text \<open>
  C3, amended. In non-strict mode a read made while the snapshot is empty returns the
  given default without raising, after logging an error and running the refresh throttle
  as any read does: before the interval has elapsed the refresh time and the published
  messages are unchanged; once it has elapsed the refresh time becomes the current time
  and a full-refresh request is handed to the publisher.
\<close>

theorem not_ready_read_default:
  "\<not> strict s \<and> \<not> ready s \<longrightarrow>
     fst (get key dflt now s) = Inr dflt
     \<and> snd (get key dflt now s) =
         snd (update now (s\<lparr>logged := logged s @ [LogError ''Printer Values Not Available Yet'']\<rparr>))
     \<and> (now < last_update s + pushall_timeout s \<longrightarrow>
          last_update (snd (get key dflt now s)) = last_update s
          \<and> published (snd (get key dflt now s)) = published s)
     \<and> (last_update s + pushall_timeout s \<le> now \<longrightarrow>
          last_update (snd (get key dflt now s)) = now
          \<and> published (snd (get key dflt now s)) =
              (if is_connected s then published s @ [(command_topic s, pushall_doc)]
               else published s))"
proof (intro impI)
  assume h: "\<not> strict s \<and> \<not> ready s"
  then have g: "get key dflt now s =
      (Inr (dict_get (data s) key dflt),
       snd (update now (s\<lparr>logged := logged s @ [LogError ''Printer Values Not Available Yet'']\<rparr>)))"
    by (simp add: get_proceeds)
  from h have "data s = []"
    by (simp add: ready_def)
  then have v: "dict_get (data s) key dflt = dflt"
    by (simp add: dict_get_def dict_of_def)
  show "fst (get key dflt now s) = Inr dflt
     \<and> snd (get key dflt now s) =
         snd (update now (s\<lparr>logged := logged s @ [LogError ''Printer Values Not Available Yet'']\<rparr>))
     \<and> (now < last_update s + pushall_timeout s \<longrightarrow>
          last_update (snd (get key dflt now s)) = last_update s
          \<and> published (snd (get key dflt now s)) = published s)
     \<and> (last_update s + pushall_timeout s \<le> now \<longrightarrow>
          last_update (snd (get key dflt now s)) = now
          \<and> published (snd (get key dflt now s)) =
              (if is_connected s then published s @ [(command_topic s, pushall_doc)]
               else published s))"
    unfolding g by (simp add: v update_cases publish_command_def command_topic_def)
qed

theorem not_ready_read_default_witness:
  "\<not> strict demo \<and> \<not> ready demo
   \<and> last_update demo + pushall_timeout demo \<le> 1000
   \<and> fst (get ''mc_percent'' (JInt 5) 1000 demo) = Inr (JInt 5)
   \<and> last_update (snd (get ''mc_percent'' (JInt 5) 1000 demo)) = 1000
   \<and> 30 < last_update demo + pushall_timeout demo
   \<and> last_update (snd (get ''mc_percent'' (JInt 5) 30 demo)) = last_update demo
   \<and> published (snd (get ''mc_percent'' (JInt 5) 30 demo)) = published demo"
proof -
  have h: "\<not> strict demo \<and> \<not> ready demo"
    by (simp add: demo_def init_def ready_def)
  have late: "last_update demo + pushall_timeout demo \<le> 1000"
    by (simp add: demo_def init_def)
  have early: "30 < last_update demo + pushall_timeout demo"
    by (simp add: demo_def init_def)
  show ?thesis
    using h late early
      not_ready_read_default [where s = demo and key = "''mc_percent''" and dflt = "JInt 5"
        and now = 1000]
      not_ready_read_default [where s = demo and key = "''mc_percent''" and dflt = "JInt 5"
        and now = 30]
    by blast
qed

section \<open>Reports without a print section\<close>

lemma manual_update_no_section:
  "\<not> has_print_section doc \<Longrightarrow> snd (manual_update doc s) = s"
  by (cases doc) (auto simp: manual_update_def split: sum.splits bool.splits)

text \<open>
  The claim C4 fails for a payload that decodes to \<^verbatim>\<open>null\<close>, to a number or to a
  boolean: it carries no \<^verbatim>\<open>print\<close> section, and the membership test raises
  \<^verbatim>\<open>TypeError\<close> out of the handler. Here the payload is the decoded document and
  \<open>Inr\<close> the decoder.
\<close>

theorem null_payload_raises:
  "\<not> has_print_section JNull
   \<and> on_message Inr JNull demo = (Inl TypeError, demo)
   \<and> \<not> has_print_section (JInt 5)
   \<and> on_message Inr (JInt 5) demo = (Inl TypeError, demo)
   \<and> \<not> has_print_section (JBool True)
   \<and> on_message Inr (JBool True) demo = (Inl TypeError, demo)"
  by (simp add: on_message_def manual_update_def)

text \<open>
  C4, amended. A payload that decodes to an object without a \<^verbatim>\<open>print\<close> member leaves
  the client as it was and raises nothing, whatever its other members hold. Every
  payload that carries no \<^verbatim>\<open>print\<close> section leaves the client as it was, but not
  every one passes silently: a payload that the decoder rejects raises the decoder's
  error; one that decodes to \<^verbatim>\<open>null\<close>, a boolean or a number raises \<^verbatim>\<open>TypeError\<close>;
  one that decodes to a list or a string raises \<^verbatim>\<open>TypeError\<close> when the list has the
  element \<^verbatim>\<open>"print"\<close> or the string contains \<^verbatim>\<open>print\<close>, and raises nothing otherwise.
\<close>

theorem report_without_print_ignored:
  "(loads payload = Inr (JObj members) \<and> dict_of members ''print'' = None \<longrightarrow>
      on_message loads payload s = (Inr (), s))
   \<and> (loads payload = Inr doc \<and> \<not> has_print_section doc \<longrightarrow>
      snd (on_message loads payload s) = s)
   \<and> (loads payload = Inl e \<longrightarrow> on_message loads payload s = (Inl e, s))
   \<and> (loads payload = Inr JNull \<longrightarrow> on_message loads payload s = (Inl TypeError, s))
   \<and> (loads payload = Inr (JBool b) \<longrightarrow> on_message loads payload s = (Inl TypeError, s))
   \<and> (loads payload = Inr (JInt i) \<longrightarrow> on_message loads payload s = (Inl TypeError, s))
   \<and> (loads payload = Inr (JReal r) \<longrightarrow> on_message loads payload s = (Inl TypeError, s))
   \<and> (loads payload = Inr (JList xs) \<longrightarrow>
        on_message loads payload s =
          (if JStr ''print'' \<in> set xs then (Inl TypeError, s) else (Inr (), s)))
   \<and> (loads payload = Inr (JStr t) \<longrightarrow>
        on_message loads payload s =
          (if is_substr ''print'' t then (Inl TypeError, s) else (Inr (), s)))"
proof (intro conjI impI)
  assume "loads payload = Inr (JObj members) \<and> dict_of members ''print'' = None"
  then show "on_message loads payload s = (Inr (), s)"
    by (simp add: on_message_def manual_update_def)
next
  assume "loads payload = Inr doc \<and> \<not> has_print_section doc"
  then show "snd (on_message loads payload s) = s"
    by (simp add: on_message_def manual_update_no_section)
next
  assume "loads payload = Inl e"
  then show "on_message loads payload s = (Inl e, s)"
    by (simp add: on_message_def)
next
  assume "loads payload = Inr JNull"
  then show "on_message loads payload s = (Inl TypeError, s)"
    by (simp add: on_message_def manual_update_def)
next
  assume "loads payload = Inr (JBool b)"
  then show "on_message loads payload s = (Inl TypeError, s)"
    by (simp add: on_message_def manual_update_def)
next
  assume "loads payload = Inr (JInt i)"
  then show "on_message loads payload s = (Inl TypeError, s)"
    by (simp add: on_message_def manual_update_def)
next
  assume "loads payload = Inr (JReal r)"
  then show "on_message loads payload s = (Inl TypeError, s)"
    by (simp add: on_message_def manual_update_def)
next
  assume "loads payload = Inr (JList xs)"
  then show "on_message loads payload s =
          (if JStr ''print'' \<in> set xs then (Inl TypeError, s) else (Inr (), s))"
    by (simp add: on_message_def manual_update_def)
next
  assume "loads payload = Inr (JStr t)"
  then show "on_message loads payload s =
          (if is_substr ''print'' t then (Inl TypeError, s) else (Inr (), s))"
    by (simp add: on_message_def manual_update_def)
qed

theorem report_without_print_ignored_witness:
  "dict_of [(''system'', JInt 5), (''info'', JList [JNull])] ''print'' = None
   \<and> on_message Inr (JObj [(''system'', JInt 5), (''info'', JList [JNull])]) demo = (Inr (), demo)
   \<and> \<not> has_print_section (JList [JStr ''print''])
   \<and> snd (on_message Inr (JList [JStr ''print'']) demo) = demo
   \<and> on_message Inr (JList [JStr ''print'']) demo = (Inl TypeError, demo)
   \<and> on_message Inr (JStr ''a print job'') demo = (Inl TypeError, demo)
   \<and> on_message Inr (JStr ''status'') demo = (Inr (), demo)
   \<and> on_message Inl ValueError demo = (Inl ValueError, demo)
   \<and> on_message Inr JNull demo = (Inl TypeError, demo)
   \<and> on_message Inr (JBool False) demo = (Inl TypeError, demo)
   \<and> on_message Inr (JInt 5) demo = (Inl TypeError, demo)
   \<and> on_message Inr (JReal (1 / 2)) demo = (Inl TypeError, demo)"
proof -
  have none: "dict_of [(''system'', JInt 5), (''info'', JList [JNull])] ''print'' = None"
    by (simp add: dict_of_def)
  have nosec: "\<not> has_print_section (JList [JStr ''print''])"
    by simp
  have sub: "is_substr ''print'' ''a print job''" "\<not> is_substr ''print'' ''status''"
    by simp_all
  note t = report_without_print_ignored [where s = demo]
  have 1: "on_message Inr (JObj [(''system'', JInt 5), (''info'', JList [JNull])]) demo = (Inr (), demo)"
    using none t [where loads = Inr and payload = "JObj [(''system'', JInt 5), (''info'', JList [JNull])]"
        and members = "[(''system'', JInt 5), (''info'', JList [JNull])]"]
    by blast
  have 2: "snd (on_message Inr (JList [JStr ''print'']) demo) = demo"
    using nosec t [where loads = Inr and payload = "JList [JStr ''print'']"
        and doc = "JList [JStr ''print'']"]
    by blast
  have 3: "on_message Inr (JList [JStr ''print'']) demo = (Inl TypeError, demo)"
    using t [where loads = Inr and payload = "JList [JStr ''print'']" and xs = "[JStr ''print'']"]
    by simp
  have 4: "on_message Inr (JStr ''a print job'') demo = (Inl TypeError, demo)"
    using sub(1) t [where loads = Inr and payload = "JStr ''a print job''" and t = "''a print job''"]
    by simp
  have 5: "on_message Inr (JStr ''status'') demo = (Inr (), demo)"
    using sub(2) t [where loads = Inr and payload = "JStr ''status''" and t = "''status''"]
    by simp
  have 6: "on_message Inl ValueError demo = (Inl ValueError, demo)"
    using t [where loads = Inl and payload = ValueError and e = ValueError]
    by blast
  have 7: "on_message Inr JNull demo = (Inl TypeError, demo)"
    using t [where loads = Inr and payload = JNull]
    by blast
  have 8: "on_message Inr (JBool False) demo = (Inl TypeError, demo)"
    using t [where loads = Inr and payload = "JBool False" and b = False]
    by blast
  have 9: "on_message Inr (JInt 5) demo = (Inl TypeError, demo)"
    using t [where loads = Inr and payload = "JInt 5" and i = 5]
    by blast
  have 10: "on_message Inr (JReal (1 / 2)) demo = (Inl TypeError, demo)"
    using t [where loads = Inr and payload = "JReal (1 / 2)" and r = "1 / 2"]
    by blast
  from none nosec 1 2 3 4 5 6 7 8 9 10 show ?thesis
    by blast
qed

section \<open>Pause and resume\<close>

text \<open>
  C8. Let the read of the gcode state return \<open>g\<close> and leave the client \<open>s1\<close>; the read
  itself publishes nothing or one full-refresh request. If \<open>g\<close> is \<^verbatim>\<open>PAUSE\<close>, pausing
  returns true and leaves \<open>s1\<close>, so the pause command is not published; if \<open>g\<close> is
  \<^verbatim>\<open>RUNNING\<close>, resuming does the same. Otherwise the operation hands its command to
  the publisher and returns what the publisher returns: on a connected client the
  command is published and the result is the transport's confirmation.
\<close>

theorem pause_resume_idempotent:
  "get_printer_state decode now s = (Inr g, s1) \<longrightarrow>
     (published s1 = published s \<or> published s1 = published s @ [(command_topic s, pushall_doc)])
     \<and> (g = PAUSE \<longrightarrow> pause_print decode PAUSE now s = (Inr True, s1))
     \<and> (g = RUNNING \<longrightarrow> resume_print decode RUNNING now s = (Inr True, s1))
     \<and> (g \<noteq> PAUSE \<longrightarrow>
          pause_print decode PAUSE now s =
            (case publish_command pause_doc s1 of (b, s2) \<Rightarrow> (Inr b, s2))
          \<and> (is_connected s \<longrightarrow>
               fst (pause_print decode PAUSE now s) = Inr (confirms s (length (published s1)))
               \<and> published (snd (pause_print decode PAUSE now s)) =
                   published s1 @ [(command_topic s, pause_doc)]))
     \<and> (g \<noteq> RUNNING \<longrightarrow>
          resume_print decode RUNNING now s =
            (case publish_command resume_doc s1 of (b, s2) \<Rightarrow> (Inr b, s2))
          \<and> (is_connected s \<longrightarrow>
               fst (resume_print decode RUNNING now s) = Inr (confirms s (length (published s1)))
               \<and> published (snd (resume_print decode RUNNING now s)) =
                   published s1 @ [(command_topic s, resume_doc)]))"
proof (intro impI)
  assume st: "get_printer_state decode now s = (Inr g, s1)"
  have s1: "s1 = snd (get ''gcode_state'' (JInt (- 1)) now s)"
    using get_printer_state_snd [of decode now s] st by simp
  have pub: "published s1 = published s \<or> published s1 = published s @ [(command_topic s, pushall_doc)]"
    unfolding s1 by (rule get_published_cases)
  have tr: "is_connected s1 = is_connected s" "confirms s1 = confirms s"
    "command_topic s1 = command_topic s"
    unfolding s1 by (simp_all add: command_topic_def)
  have pause_same: "g = PAUSE \<longrightarrow> pause_print decode PAUSE now s = (Inr True, s1)"
    by (simp add: pause_print_def st)
  have resume_same: "g = RUNNING \<longrightarrow> resume_print decode RUNNING now s = (Inr True, s1)"
    by (simp add: resume_print_def st)
  have pause_other: "g \<noteq> PAUSE \<longrightarrow>
          pause_print decode PAUSE now s =
            (case publish_command pause_doc s1 of (b, s2) \<Rightarrow> (Inr b, s2))
          \<and> (is_connected s \<longrightarrow>
               fst (pause_print decode PAUSE now s) = Inr (confirms s (length (published s1)))
               \<and> published (snd (pause_print decode PAUSE now s)) =
                   published s1 @ [(command_topic s, pause_doc)])"
    using tr by (simp add: pause_print_def st publish_command_def)
  have resume_other: "g \<noteq> RUNNING \<longrightarrow>
          resume_print decode RUNNING now s =
            (case publish_command resume_doc s1 of (b, s2) \<Rightarrow> (Inr b, s2))
          \<and> (is_connected s \<longrightarrow>
               fst (resume_print decode RUNNING now s) = Inr (confirms s (length (published s1)))
               \<and> published (snd (resume_print decode RUNNING now s)) =
                   published s1 @ [(command_topic s, resume_doc)])"
    using tr by (simp add: resume_print_def st publish_command_def)
  from pub pause_same resume_same pause_other resume_other
  show "(published s1 = published s \<or> published s1 = published s @ [(command_topic s, pushall_doc)])
     \<and> (g = PAUSE \<longrightarrow> pause_print decode PAUSE now s = (Inr True, s1))
     \<and> (g = RUNNING \<longrightarrow> resume_print decode RUNNING now s = (Inr True, s1))
     \<and> (g \<noteq> PAUSE \<longrightarrow>
          pause_print decode PAUSE now s =
            (case publish_command pause_doc s1 of (b, s2) \<Rightarrow> (Inr b, s2))
          \<and> (is_connected s \<longrightarrow>
               fst (pause_print decode PAUSE now s) = Inr (confirms s (length (published s1)))
               \<and> published (snd (pause_print decode PAUSE now s)) =
                   published s1 @ [(command_topic s, pause_doc)]))
     \<and> (g \<noteq> RUNNING \<longrightarrow>
          resume_print decode RUNNING now s =
            (case publish_command resume_doc s1 of (b, s2) \<Rightarrow> (Inr b, s2))
          \<and> (is_connected s \<longrightarrow>
               fst (resume_print decode RUNNING now s) = Inr (confirms s (length (published s1)))
               \<and> published (snd (resume_print decode RUNNING now s)) =
                   published s1 @ [(command_topic s, resume_doc)]))"
    by blast
qed

lemma paused_state:
  "get_printer_state Inr 1010 paused = (Inr (JStr ''PAUSE''), paused)"
  by (simp add: get_printer_state_def get_def ready_wrapper_def ready_def paused_def
      update_def demo_def init_def dict_get_def dict_of_def)

theorem pause_resume_idempotent_witness:
  "get_printer_state Inr 1010 paused = (Inr (JStr ''PAUSE''), paused)
   \<and> pause_print Inr (JStr ''PAUSE'') 1010 paused = (Inr True, paused)
   \<and> JStr ''PAUSE'' \<noteq> JStr ''RUNNING'' \<and> is_connected paused
   \<and> fst (resume_print Inr (JStr ''RUNNING'') 1010 paused) = Inr (confirms paused (length (published paused)))
   \<and> published (snd (resume_print Inr (JStr ''RUNNING'') 1010 paused)) =
       published paused @ [(command_topic paused, resume_doc)]"
proof -
  have c: "is_connected paused"
    by (simp add: paused_def demo_def init_def)
  have ne: "JStr ''PAUSE'' \<noteq> JStr ''RUNNING''"
    by simp
  show ?thesis
    using paused_state c ne
      pause_resume_idempotent [where decode = Inr and now = 1010 and s = paused
        and g = "JStr ''PAUSE''" and ?s1.0 = paused and PAUSE = "JStr ''PAUSE''"
        and RUNNING = "JStr ''RUNNING''"]
    by blast
qed

section \<open>The G-code validator and the grammar\<close>

text \<open>
  The two patterns of \<open>is_valid_gcode\<close> against the grammar as the specification words
  it. A token produced by \<^verbatim>\<open>split()\<close> holds no whitespace, so the line feed that
  \<^verbatim>\<open>$\<close> would let pass never reaches the second pattern.
\<close>

lemma dot_not_digit [simp]: "\<not> is_digit CHR ''.''"
  by (simp add: is_digit_def)

lemma minus_not_digit [simp]: "\<not> is_digit CHR ''-''"
  by (simp add: is_digit_def)

lemma newline_is_space [simp]: "is_space (CHR 0x0A)"
  by (simp add: is_space_def)

lemma takeWhile_digits_append:
  "list_all is_digit ds \<Longrightarrow> takeWhile is_digit (ds @ rest) = ds @ takeWhile is_digit rest"
  by (induction ds) auto

lemma dropWhile_digits_append:
  "list_all is_digit ds \<Longrightarrow> dropWhile is_digit (ds @ rest) = dropWhile is_digit rest"
  by (induction ds) auto

lemma takeWhile_all_digits: "list_all is_digit ds \<Longrightarrow> takeWhile is_digit ds = ds"
  by (induction ds) auto

lemma dropWhile_all_digits: "list_all is_digit ds \<Longrightarrow> dropWhile is_digit ds = []"
  by (induction ds) auto

lemma list_all_takeWhile: "list_all P (takeWhile P xs)"
  by (induction xs) auto

lemma spec_digits_takeWhile:
  "takeWhile is_digit xs \<noteq> [] \<Longrightarrow> spec_digits (takeWhile is_digit xs)"
  by (simp add: spec_digits_def list_all_takeWhile)

lemma match_command_iff: "match_command l = spec_command l"
proof
  assume "match_command l"
  then obtain c rest where l: "l = c # rest" and c: "c = CHR ''G'' \<or> c = CHR ''M''"
    and ds: "takeWhile is_digit rest \<noteq> []"
    by (auto simp: match_command_def split: list.splits)
  have "l = c # takeWhile is_digit rest @ dropWhile is_digit rest"
    by (simp add: l)
  with c ds show "spec_command l"
    unfolding spec_command_def using spec_digits_takeWhile by blast
next
  assume "spec_command l"
  then obtain c ds rest where c: "c = CHR ''G'' \<or> c = CHR ''M''" and ds: "spec_digits ds"
    and l: "l = c # ds @ rest"
    by (auto simp: spec_command_def)
  from ds have "takeWhile is_digit (ds @ rest) \<noteq> []"
    by (simp add: spec_digits_def takeWhile_digits_append)
  with c l show "match_command l"
    by (simp add: match_command_def)
qed

lemma number_match:
  assumes ns: "\<forall>c \<in> set n. \<not> is_space c"
  shows "(takeWhile is_digit n \<noteq> [] \<and>
          (at_end (dropWhile is_digit n) \<or>
           (case dropWhile is_digit n of
              [] \<Rightarrow> False
            | x # xs \<Rightarrow> x = CHR ''.'' \<and> takeWhile is_digit xs \<noteq> [] \<and>
                        at_end (dropWhile is_digit xs))))
         = spec_number n"
proof
  assume m: "takeWhile is_digit n \<noteq> [] \<and>
          (at_end (dropWhile is_digit n) \<or>
           (case dropWhile is_digit n of
              [] \<Rightarrow> False
            | x # xs \<Rightarrow> x = CHR ''.'' \<and> takeWhile is_digit xs \<noteq> [] \<and>
                        at_end (dropWhile is_digit xs)))"
  define ds where "ds = takeWhile is_digit n"
  define r where "r = dropWhile is_digit n"
  have n: "n = ds @ r"
    by (simp add: ds_def r_def)
  have dsd: "spec_digits ds"
    using m by (simp add: ds_def spec_digits_takeWhile)
  have rs: "\<forall>c \<in> set r. \<not> is_space c"
    using ns n by auto
  have no_nl: "xs \<noteq> [CHR 0x0A]" if "set xs \<subseteq> set r" for xs
  proof
    assume "xs = [CHR 0x0A]"
    with that have "CHR 0x0A \<in> set r"
      by auto
    with rs have "\<not> is_space (CHR 0x0A)"
      by blast
    then show False
      by simp
  qed
  from m have "at_end r \<or> (\<exists>xs. r = CHR ''.'' # xs \<and> takeWhile is_digit xs \<noteq> []
      \<and> at_end (dropWhile is_digit xs))"
    by (auto simp: r_def split: list.splits)
  then show "spec_number n"
  proof
    assume "at_end r"
    then have "r = []"
      using no_nl [of r] by (auto simp: at_end_def)
    with n dsd show ?thesis
      by (simp add: spec_number_def)
  next
    assume "\<exists>xs. r = CHR ''.'' # xs \<and> takeWhile is_digit xs \<noteq> []
      \<and> at_end (dropWhile is_digit xs)"
    then obtain xs where r: "r = CHR ''.'' # xs" and fs: "takeWhile is_digit xs \<noteq> []"
      and e: "at_end (dropWhile is_digit xs)"
      by blast
    have "set (dropWhile is_digit xs) \<subseteq> set r"
      using set_dropWhileD [of _ is_digit xs] by (auto simp: r)
    then have "dropWhile is_digit xs = []"
      using e no_nl [of "dropWhile is_digit xs"] by (auto simp: at_end_def)
    then have "xs = takeWhile is_digit xs"
      by (metis append_Nil2 takeWhile_dropWhile_id)
    then have "spec_digits xs"
      using fs spec_digits_takeWhile [of xs] by simp
    with dsd n r show ?thesis
      unfolding spec_number_def by auto
  qed
next
  assume "spec_number n"
  then consider (whole) "spec_digits n"
    | (frac) ds fs where "spec_digits ds" "spec_digits fs" "n = ds @ ''.'' @ fs"
    by (auto simp: spec_number_def)
  then show "takeWhile is_digit n \<noteq> [] \<and>
          (at_end (dropWhile is_digit n) \<or>
           (case dropWhile is_digit n of
              [] \<Rightarrow> False
            | x # xs \<Rightarrow> x = CHR ''.'' \<and> takeWhile is_digit xs \<noteq> [] \<and>
                        at_end (dropWhile is_digit xs)))"
  proof cases
    case whole
    then have a: "list_all is_digit n" "n \<noteq> []"
      by (simp_all add: spec_digits_def)
    have f: "takeWhile is_digit n = n" "dropWhile is_digit n = []"
      by (rule takeWhile_all_digits [OF a(1)], rule dropWhile_all_digits [OF a(1)])
    show ?thesis
      unfolding f using a(2) by (simp add: at_end_def)
  next
    case frac
    then have a: "list_all is_digit ds" "ds \<noteq> []" "list_all is_digit fs" "fs \<noteq> []"
      by (simp_all add: spec_digits_def)
    have t: "takeWhile is_digit n = ds"
      by (simp add: frac(3) takeWhile_digits_append [OF a(1)])
    have d: "dropWhile is_digit n = CHR ''.'' # fs"
      by (simp add: frac(3) dropWhile_digits_append [OF a(1)])
    have f: "takeWhile is_digit fs = fs" "dropWhile is_digit fs = []"
      by (rule takeWhile_all_digits [OF a(3)], rule dropWhile_all_digits [OF a(3)])
    have "at_end (dropWhile is_digit fs)"
      unfolding f by (simp add: at_end_def)
    moreover have "takeWhile is_digit fs \<noteq> []"
      unfolding f by (rule a(4))
    ultimately show ?thesis
      unfolding t d using a(2) by simp
  qed
qed

lemma spec_number_no_minus: "spec_number n \<Longrightarrow> hd n \<noteq> CHR ''-'' \<and> n \<noteq> []"
  by (auto simp: spec_number_def spec_digits_def list_all_iff neq_Nil_conv)

lemma match_param_iff:
  assumes ns: "\<forall>c \<in> set t. \<not> is_space c"
  shows "match_param t = spec_param t"
proof (cases t)
  case Nil
  then show ?thesis
    by (simp add: match_param_def spec_param_def)
next
  case (Cons c r0)
  define r1 where "r1 = (case r0 of [] \<Rightarrow> r0 | x # xs \<Rightarrow> if x = CHR ''-'' then xs else r0)"
  have r1s: "\<forall>c \<in> set r1. \<not> is_space c"
    using ns Cons by (auto simp: r1_def split: list.splits)
  have mp: "match_param t = (is_upper c \<and> spec_number r1)"
    unfolding number_match [OF r1s, symmetric]
    by (simp add: match_param_def Cons r1_def Let_def)
  show ?thesis
  proof
    assume "match_param t"
    with mp have u: "is_upper c" and n: "spec_number r1"
      by simp_all
    have "r0 = r1 \<or> r0 = CHR ''-'' # r1"
      by (auto simp: r1_def split: list.splits)
    with u n Cons show "spec_param t"
      unfolding spec_param_def by blast
  next
    assume "spec_param t"
    then obtain n where u: "is_upper c" and n: "spec_number n"
      and r0: "r0 = n \<or> r0 = CHR ''-'' # n"
      using Cons by (auto simp: spec_param_def)
    from n have "hd n \<noteq> CHR ''-''" "n \<noteq> []"
      using spec_number_no_minus by blast+
    with r0 have "r1 = n"
      by (auto simp: r1_def split: list.splits)
    with mp u n show "match_param t"
      by simp
  qed
qed

lemma split_acc_no_space:
  "t \<in> set (split_acc cur s) \<Longrightarrow> \<forall>c \<in> set cur. \<not> is_space c \<Longrightarrow> \<forall>c \<in> set t. \<not> is_space c"
proof (induction s arbitrary: cur)
  case Nil
  then show ?case
    by (auto split: if_splits)
next
  case (Cons a s)
  show ?case
  proof (cases "is_space a")
    case True
    with Cons.prems(1) have "t = cur \<or> t \<in> set (split_acc [] s)"
      by (auto split: if_splits)
    then show ?thesis
      using Cons.prems(2) Cons.IH [of "[]"] by auto
  next
    case False
    with Cons.prems(1) have "t \<in> set (split_acc (cur @ [a]) s)"
      by simp
    moreover have "\<forall>c \<in> set (cur @ [a]). \<not> is_space c"
      using False Cons.prems(2) by auto
    ultimately show ?thesis
      by (rule Cons.IH)
  qed
qed

lemma py_split_no_space: "t \<in> set (py_split s) \<Longrightarrow> \<forall>c \<in> set t. \<not> is_space c"
  using split_acc_no_space [of t "[]" s] by (simp add: py_split_def)

lemma params_iff: "list_all match_param (tl (py_split l)) = list_all spec_param (tl (py_split l))"
proof -
  have "match_param t = spec_param t" if "t \<in> set (tl (py_split l))" for t
  proof -
    from that have "t \<in> set (py_split l)"
      by (cases "py_split l") auto
    then show ?thesis
      by (intro match_param_iff py_split_no_space)
  qed
  then show ?thesis
    by (auto simp: list_all_iff)
qed

text \<open>
  C7. \<open>is_valid_gcode\<close> accepts a line exactly when, after everything from the first
  semicolon on is dropped and the rest is trimmed, the line is not empty, starts with G
  or M followed by digits, and every whitespace-separated token after the first is one
  uppercase letter followed by an optionally negative, optionally fractional number.
  The five lines of the specification are classified as it says.
\<close>

theorem gcode_validator_grammar:
  "is_valid_gcode line = spec_valid_gcode line
   \<and> is_valid_gcode ''G1 X10 Y-5.5''
   \<and> is_valid_gcode ''M104 S200 ; set temp''
   \<and> \<not> is_valid_gcode ''G1 X10Y5''
   \<and> \<not> is_valid_gcode ''''
   \<and> \<not> is_valid_gcode ''; comment only''"
proof -
  have "is_valid_gcode line = spec_valid_gcode line"
    unfolding is_valid_gcode_def spec_valid_gcode_def Let_def match_command_iff params_iff
    by (auto simp: spec_command_def)
  moreover have "is_valid_gcode ''G1 X10 Y-5.5''"
    by code_simp
  moreover have "is_valid_gcode ''M104 S200 ; set temp''"
    by code_simp
  moreover have "\<not> is_valid_gcode ''G1 X10Y5''"
    by code_simp
  moreover have "\<not> is_valid_gcode ''''"
    by code_simp
  moreover have "\<not> is_valid_gcode ''; comment only''"
    by code_simp
  ultimately show ?thesis
    by blast
qed

theorem gcode_validator_grammar_witness:
  "spec_valid_gcode ''G1 X10 Y-5.5'' \<and> \<not> spec_valid_gcode ''G1 X10Y5''"
  using gcode_validator_grammar [of "''G1 X10 Y-5.5''"] gcode_validator_grammar [of "''G1 X10Y5''"]
  by blast

section \<open>Rebuilding the storage hub\<close>

text \<open>
  What the two loops of \<open>process_ams\<close> build when they run to the end: the slots of a
  unit are exactly those of its slot fragments whose \<^verbatim>\<open>n\<close> field is truthy, and the hub
  gets one entry for each unit of the list.
\<close>

lemma set_filament_tray_simps [simp]:
  "humidity (set_filament_tray ams i ft) = humidity ams"
  "temperature (set_filament_tray ams i ft) = temperature ams"
  "filament_trays (set_filament_tray ams i ft) = filament_trays ams @ [(i, ft)]"
  by (simp_all add: set_filament_tray_def)

lemma parse_trays_slots:
  assumes "parse_trays from_dict py_int k ts ams = Inr ams'"
  shows "humidity ams' = humidity ams \<and> temperature ams' = temperature ams
         \<and> set (filament_trays ams') =
             set (filament_trays ams) \<union>
             {(tid, ft). \<exists>j tray idv nv. (j, tray) \<in> set (enumerate k ts)
                \<and> py_get tray ''id'' (JInt (int j)) = Inr idv \<and> py_int idv = Inr tid
                \<and> py_get tray ''n'' JNull = Inr nv \<and> truthy nv \<and> from_dict tray = Inr ft}"
  using assms
proof (induction ts arbitrary: k ams)
  case Nil
  then show ?case
    by simp
next
  case (Cons tray rest)
  from Cons.prems obtain idv tid nv where
    idv: "py_get tray ''id'' (JInt (int k)) = Inr idv" and tid: "py_int idv = Inr tid"
    and nv: "py_get tray ''n'' JNull = Inr nv"
    by (auto split: sum.splits)
  show ?case
  proof (cases "truthy nv")
    case True
    with Cons.prems idv tid nv obtain ft where ft: "from_dict tray = Inr ft"
      and rest: "parse_trays from_dict py_int (Suc k) rest (set_filament_tray ams tid ft) = Inr ams'"
      by (auto split: sum.splits)
    have here: "{(tid', ft'). \<exists>j tr idv nv. (j, tr) \<in> set (enumerate k (tray # rest))
                \<and> py_get tr ''id'' (JInt (int j)) = Inr idv \<and> py_int idv = Inr tid'
                \<and> py_get tr ''n'' JNull = Inr nv \<and> truthy nv \<and> from_dict tr = Inr ft'}
          = insert (tid, ft)
              {(tid', ft'). \<exists>j tr idv nv. (j, tr) \<in> set (enumerate (Suc k) rest)
                \<and> py_get tr ''id'' (JInt (int j)) = Inr idv \<and> py_int idv = Inr tid'
                \<and> py_get tr ''n'' JNull = Inr nv \<and> truthy nv \<and> from_dict tr = Inr ft'}"
      using idv tid nv True ft by auto
    from Cons.IH [OF rest] show ?thesis
      unfolding here by auto
  next
    case False
    with Cons.prems idv tid nv
    have rest: "parse_trays from_dict py_int (Suc k) rest ams = Inr ams'"
      by (auto split: sum.splits)
    have here: "{(tid', ft'). \<exists>j tr idv nv. (j, tr) \<in> set (enumerate k (tray # rest))
                \<and> py_get tr ''id'' (JInt (int j)) = Inr idv \<and> py_int idv = Inr tid'
                \<and> py_get tr ''n'' JNull = Inr nv \<and> truthy nv \<and> from_dict tr = Inr ft'}
          = {(tid', ft'). \<exists>j tr idv nv. (j, tr) \<in> set (enumerate (Suc k) rest)
                \<and> py_get tr ''id'' (JInt (int j)) = Inr idv \<and> py_int idv = Inr tid'
                \<and> py_get tr ''n'' JNull = Inr nv \<and> truthy nv \<and> from_dict tr = Inr ft'}"
      using nv False by auto
    from Cons.IH [OF rest] show ?thesis
      unfolding here by auto
  qed
qed

lemma parse_unit_slots:
  assumes "parse_unit from_dict py_int py_float k v = Inr (unit_id, ams)"
      and "py_get v ''tray'' (JList []) = Inr (JList ts)"
  shows "set (filament_trays ams) =
           {(tid, ft). \<exists>j tray idv nv. (j, tray) \<in> set (enumerate 0 ts)
              \<and> py_get tray ''id'' (JInt (int j)) = Inr idv \<and> py_int idv = Inr tid
              \<and> py_get tray ''n'' JNull = Inr nv \<and> truthy nv \<and> from_dict tray = Inr ft}"
proof (cases "ts = []")
  case True
  with assms show ?thesis
    by (auto simp: parse_unit_def new_AMS_def split: sum.splits)
next
  case False
  with assms obtain h t where
    "parse_trays from_dict py_int 0 ts (new_AMS h t) = Inr ams"
    by (auto simp: parse_unit_def split: sum.splits)
  from parse_trays_slots [OF this] show ?thesis
    by (simp add: new_AMS_def)
qed

lemma parse_units_entries:
  assumes "parse_units from_dict py_int py_float k vs hub = (Inr (), hub')"
  shows "\<exists>entries. hub' = hub @ entries
           \<and> list_all2 (\<lambda>jv entry. parse_unit from_dict py_int py_float (fst jv) (snd jv) = Inr entry)
                (enumerate k vs) entries"
  using assms
proof (induction vs arbitrary: k hub)
  case Nil
  then show ?case
    by simp
next
  case (Cons v rest)
  from Cons.prems obtain entry where
    e: "parse_unit from_dict py_int py_float k v = Inr entry"
    and r: "parse_units from_dict py_int py_float (Suc k) rest (hub @ [entry]) = (Inr (), hub')"
    by (auto split: sum.splits prod.splits)
  from Cons.IH [OF r] obtain entries where
    "hub' = (hub @ [entry]) @ entries"
    "list_all2 (\<lambda>jv entry. parse_unit from_dict py_int py_float (fst jv) (snd jv) = Inr entry)
       (enumerate (Suc k) rest) entries"
    by blast
  with e have "hub' = hub @ (entry # entries)
       \<and> list_all2 (\<lambda>jv entry. parse_unit from_dict py_int py_float (fst jv) (snd jv) = Inr entry)
            (enumerate k (v # rest)) (entry # entries)"
    by simp
  then show ?case
    by blast
qed

lemma ams_hub_get [simp]: "ams_hub (snd (get key dflt now s)) = ams_hub s"
  by (auto simp: get_def ready_wrapper_def update_def pushall_def publish_command_def Let_def
      split: prod.splits)

lemma get_ams_hub_update:
  "get key dflt now (s\<lparr>ams_hub := h\<rparr>) =
     (fst (get key dflt now s), (snd (get key dflt now s))\<lparr>ams_hub := h\<rparr>)"
  by (auto simp: get_def ready_wrapper_def ready_def update_def pushall_def publish_command_def
      command_topic_def Let_def split: prod.splits)

lemma get_value:
  "ready s \<or> \<not> strict s \<Longrightarrow> fst (get key dflt now s) = Inr (dict_get (data s) key dflt)"
  by (auto simp: get_def ready_wrapper_def update_def pushall_def publish_command_def Let_def
      split: prod.splits)

lemma process_ams_parse:
  assumes "ready s \<or> \<not> strict s"
  shows "fst (process_ams from_dict py_int py_float now s) =
           fst (parse_ams from_dict py_int py_float (dict_get (data s) ''ams'' JNull))"
    and "ams_hub (snd (process_ams from_dict py_int py_float now s)) =
           snd (parse_ams from_dict py_int py_float (dict_get (data s) ''ams'' JNull))"
  using get_value [OF assms, of "''ams''" JNull now]
  by (auto simp: process_ams_def split: prod.splits sum.splits)

text \<open>
  C9. \<open>process_ams\<close> replaces the hub: when the read of the fragment is not rejected by
  strict mode, the new hub is what \<open>parse_ams\<close> builds from the fragment alone, so it is
  the same whatever hub the client held before. A fragment that is absent or falsy, or
  whose \<^verbatim>\<open>ams_exist_bits\<close> is \<^verbatim>\<open>"0"\<close> (also by default), gives the empty hub.
  Otherwise a parse that runs to the end gives one hub entry for every unit of the list,
  and the slots of a unit are exactly the slot fragments whose material identifier
  (the field \<^verbatim>\<open>n\<close>) is truthy, each with the slot that \<^verbatim>\<open>FilamentTray.from_dict\<close>
  builds from it; a slot with an empty identifier is left out of its unit.
\<close>

theorem storage_hub_rebuilt:
  "(ready s \<or> \<not> strict s \<longrightarrow>
      fst (process_ams from_dict py_int py_float now s) =
        fst (parse_ams from_dict py_int py_float (dict_get (data s) ''ams'' JNull))
      \<and> ams_hub (snd (process_ams from_dict py_int py_float now s)) =
          snd (parse_ams from_dict py_int py_float (dict_get (data s) ''ams'' JNull))
      \<and> ams_hub (snd (process_ams from_dict py_int py_float now (s\<lparr>ams_hub := h\<rparr>))) =
          ams_hub (snd (process_ams from_dict py_int py_float now s)))
   \<and> (\<not> truthy frag \<longrightarrow> parse_ams from_dict py_int py_float frag = (Inr (), []))
   \<and> (dict_get kvs ''ams_exist_bits'' (JStr ''0'') = JStr ''0'' \<longrightarrow>
        parse_ams from_dict py_int py_float (JObj kvs) = (Inr (), []))
   \<and> (parse_ams from_dict py_int py_float (JObj kvs) = (Inr (), hub)
        \<and> dict_get kvs ''ams_exist_bits'' (JStr ''0'') \<noteq> JStr ''0''
        \<and> dict_get kvs ''ams'' (JList []) = JList units \<longrightarrow>
        list_all2 (\<lambda>jv entry. parse_unit from_dict py_int py_float (fst jv) (snd jv) = Inr entry)
          (enumerate 0 units) hub)
   \<and> (parse_unit from_dict py_int py_float k v = Inr (unit_id, ams)
        \<and> py_get v ''tray'' (JList []) = Inr (JList ts) \<longrightarrow>
        set (filament_trays ams) =
          {(tid, ft). \<exists>j tray idv nv. (j, tray) \<in> set (enumerate 0 ts)
             \<and> py_get tray ''id'' (JInt (int j)) = Inr idv \<and> py_int idv = Inr tid
             \<and> py_get tray ''n'' JNull = Inr nv \<and> truthy nv \<and> from_dict tray = Inr ft})"
proof (intro conjI impI)
  assume r: "ready s \<or> \<not> strict s"
  show "fst (process_ams from_dict py_int py_float now s) =
        fst (parse_ams from_dict py_int py_float (dict_get (data s) ''ams'' JNull))"
    by (rule process_ams_parse(1) [OF r])
  show "ams_hub (snd (process_ams from_dict py_int py_float now s)) =
          snd (parse_ams from_dict py_int py_float (dict_get (data s) ''ams'' JNull))"
    by (rule process_ams_parse(2) [OF r])
  have r': "ready (s\<lparr>ams_hub := h\<rparr>) \<or> \<not> strict (s\<lparr>ams_hub := h\<rparr>)"
    using r by (simp add: ready_def)
  show "ams_hub (snd (process_ams from_dict py_int py_float now (s\<lparr>ams_hub := h\<rparr>))) =
          ams_hub (snd (process_ams from_dict py_int py_float now s))"
    unfolding process_ams_parse(2) [OF r] process_ams_parse(2) [OF r'] by simp
next
  assume "\<not> truthy frag"
  then show "parse_ams from_dict py_int py_float frag = (Inr (), [])"
    by (simp add: parse_ams_def)
next
  assume "dict_get kvs ''ams_exist_bits'' (JStr ''0'') = JStr ''0''"
  then show "parse_ams from_dict py_int py_float (JObj kvs) = (Inr (), [])"
    by (simp add: parse_ams_def)
next
  assume a: "parse_ams from_dict py_int py_float (JObj kvs) = (Inr (), hub)
        \<and> dict_get kvs ''ams_exist_bits'' (JStr ''0'') \<noteq> JStr ''0''
        \<and> dict_get kvs ''ams'' (JList []) = JList units"
  show "list_all2 (\<lambda>jv entry. parse_unit from_dict py_int py_float (fst jv) (snd jv) = Inr entry)
          (enumerate 0 units) hub"
  proof (cases "kvs = []")
    case True
    with a show ?thesis
      by (simp add: dict_get_def dict_of_def)
  next
    case False
    from a have p: "parse_ams from_dict py_int py_float (JObj kvs) = (Inr (), hub)"
      and b: "dict_get kvs ''ams_exist_bits'' (JStr ''0'') \<noteq> JStr ''0''"
      and u: "dict_get kvs ''ams'' (JList []) = JList units"
      by simp_all
    from p have "parse_units from_dict py_int py_float 0 units [] = (Inr (), hub)"
      by (simp add: parse_ams_def False b u)
    from parse_units_entries [OF this] show ?thesis
      by simp
  qed
next
  assume "parse_unit from_dict py_int py_float k v = Inr (unit_id, ams)
        \<and> py_get v ''tray'' (JList []) = Inr (JList ts)"
  then show "set (filament_trays ams) =
          {(tid, ft). \<exists>j tray idv nv. (j, tray) \<in> set (enumerate 0 ts)
             \<and> py_get tray ''id'' (JInt (int j)) = Inr idv \<and> py_int idv = Inr tid
             \<and> py_get tray ''n'' JNull = Inr nv \<and> truthy nv \<and> from_dict tray = Inr ft}"
    using parse_unit_slots by blast
qed

lemma sample_unit_parsed:
  "parse_unit tray_of_dict int_of_number float_of_number 0 sample_unit =
     Inr (0, \<lparr>humidity = 3, temperature = 51 / 2,
              filament_trays = [(1, JObj [(''id'', JInt 1), (''n'', JStr ''GFA00'')])]\<rparr>)"
  by code_simp

lemma sample_unit_trays:
  "py_get sample_unit ''tray'' (JList []) =
     Inr (JList [JObj [(''id'', JInt 0), (''n'', JStr [])],
                 JObj [(''id'', JInt 1), (''n'', JStr ''GFA00'')]])"
  by code_simp

lemma stale_parsed:
  "snd (parse_ams tray_of_dict int_of_number float_of_number (dict_get (data stale) ''ams'' JNull)) =
     [(0, \<lparr>humidity = 3, temperature = 51 / 2,
            filament_trays = [(1, JObj [(''id'', JInt 1), (''n'', JStr ''GFA00'')])]\<rparr>)]"
  by code_simp

theorem storage_hub_rebuilt_witness:
  "(ready stale \<or> \<not> strict stale)
   \<and> ams_hub stale = [(7, new_AMS 1 2)]
   \<and> ams_hub (snd (process_ams tray_of_dict int_of_number float_of_number 1000 stale)) =
       [(0, \<lparr>humidity = 3, temperature = 51 / 2,
              filament_trays = [(1, JObj [(''id'', JInt 1), (''n'', JStr ''GFA00'')])]\<rparr>)]
   \<and> \<not> truthy JNull
   \<and> parse_ams tray_of_dict int_of_number float_of_number JNull = (Inr (), [])
   \<and> dict_get [(''ams_exist_bits'', JStr ''0''), (''ams'', JList [sample_unit])]
        ''ams_exist_bits'' (JStr ''0'') = JStr ''0''
   \<and> parse_ams tray_of_dict int_of_number float_of_number
        (JObj [(''ams_exist_bits'', JStr ''0''), (''ams'', JList [sample_unit])]) = (Inr (), [])
   \<and> set (filament_trays \<lparr>humidity = 3, temperature = 51 / 2,
              filament_trays = [(1, JObj [(''id'', JInt 1), (''n'', JStr ''GFA00'')])]\<rparr>) =
       {(tid, ft). \<exists>j tray idv nv.
          (j, tray) \<in> set (enumerate 0 [JObj [(''id'', JInt 0), (''n'', JStr [])],
                                         JObj [(''id'', JInt 1), (''n'', JStr ''GFA00'')]])
          \<and> py_get tray ''id'' (JInt (int j)) = Inr idv \<and> int_of_number idv = Inr tid
          \<and> py_get tray ''n'' JNull = Inr nv \<and> truthy nv \<and> tray_of_dict tray = Inr ft}"
proof -
  have r: "ready stale \<or> \<not> strict stale"
    by code_simp
  have old: "ams_hub stale = [(7, new_AMS 1 2)]"
    by (simp add: stale_def)
  have new: "ams_hub (snd (process_ams tray_of_dict int_of_number float_of_number 1000 stale)) =
       [(0, \<lparr>humidity = 3, temperature = 51 / 2,
              filament_trays = [(1, JObj [(''id'', JInt 1), (''n'', JStr ''GFA00'')])]\<rparr>)]"
    using storage_hub_rebuilt [where s = stale and from_dict = tray_of_dict
        and py_int = int_of_number and py_float = float_of_number and now = 1000] r stale_parsed
    by metis
  have nt: "\<not> truthy JNull"
    by simp
  have absent: "parse_ams tray_of_dict int_of_number float_of_number JNull = (Inr (), [])"
    using storage_hub_rebuilt [where frag = JNull and from_dict = tray_of_dict
        and py_int = int_of_number and py_float = float_of_number] nt
    by blast
  have bits: "dict_get [(''ams_exist_bits'', JStr ''0''), (''ams'', JList [sample_unit])]
        ''ams_exist_bits'' (JStr ''0'') = JStr ''0''"
    by (simp add: dict_get_def dict_of_def)
  have zero: "parse_ams tray_of_dict int_of_number float_of_number
        (JObj [(''ams_exist_bits'', JStr ''0''), (''ams'', JList [sample_unit])]) = (Inr (), [])"
    using storage_hub_rebuilt [where kvs = "[(''ams_exist_bits'', JStr ''0''), (''ams'', JList [sample_unit])]"
        and from_dict = tray_of_dict and py_int = int_of_number and py_float = float_of_number] bits
    by blast
  have slots: "set (filament_trays \<lparr>humidity = 3, temperature = 51 / 2,
              filament_trays = [(1, JObj [(''id'', JInt 1), (''n'', JStr ''GFA00'')])]\<rparr>) =
       {(tid, ft). \<exists>j tray idv nv.
          (j, tray) \<in> set (enumerate 0 [JObj [(''id'', JInt 0), (''n'', JStr [])],
                                         JObj [(''id'', JInt 1), (''n'', JStr ''GFA00'')]])
          \<and> py_get tray ''id'' (JInt (int j)) = Inr idv \<and> int_of_number idv = Inr tid
          \<and> py_get tray ''n'' JNull = Inr nv \<and> truthy nv \<and> tray_of_dict tray = Inr ft}"
    using storage_hub_rebuilt [where from_dict = tray_of_dict and py_int = int_of_number
        and py_float = float_of_number and k = 0 and v = sample_unit and unit_id = 0
        and ams = "\<lparr>humidity = 3, temperature = 51 / 2,
              filament_trays = [(1, JObj [(''id'', JInt 1), (''n'', JStr ''GFA00'')])]\<rparr>"
        and ts = "[JObj [(''id'', JInt 0), (''n'', JStr [])],
                   JObj [(''id'', JInt 1), (''n'', JStr ''GFA00'')]]"]
      sample_unit_parsed sample_unit_trays
    by blast
  from r old new nt absent bits zero slots show ?thesis
    by blast
qed

end
